theory Spec2Isabelle
  imports Main "HOL-Library.Char_ord" "HOL-Library.List_Lexorder"
begin

section \<open>Values\<close>

text \<open>
  Request bodies and responses of \<^verbatim>\<open>server.js\<close> are JSON. A destructured field
  that the body does not carry is \<^verbatim>\<open>undefined\<close>. Numbers are restricted to
  integers.
\<close>

datatype jsval =
    JUndefined
  | JNull
  | JBool bool
  | JNum int
  | JStr string
  | JArr "jsval list"
  | JObj "(string \<times> jsval) list"

text \<open>JavaScript truthiness, as used by \<^verbatim>\<open>!x\<close>, \<^verbatim>\<open>x || d\<close> and \<^verbatim>\<open>x ? a : b\<close>.\<close>

fun truthy :: "jsval \<Rightarrow> bool" where
  "truthy JUndefined = False"
| "truthy JNull = False"
| "truthy (JBool b) = b"
| "truthy (JNum n) = (n \<noteq> 0)"
| "truthy (JStr s) = (s \<noteq> [])"
| "truthy (JArr xs) = True"
| "truthy (JObj kvs) = True"

definition js_or :: "jsval \<Rightarrow> jsval \<Rightarrow> jsval" where
  "js_or a d = (if truthy a then a else d)"

text \<open>\<^verbatim>\<open>Boolean(x)\<close>.\<close>

definition js_Boolean :: "jsval \<Rightarrow> jsval" where
  "js_Boolean v = JBool (truthy v)"

text \<open>Property access on an object literal or a parsed body; a missing key reads \<^verbatim>\<open>undefined\<close>.\<close>

definition fld :: "(string \<times> jsval) list \<Rightarrow> string \<Rightarrow> jsval" where
  "fld kvs k = (case map_of kvs k of None \<Rightarrow> JUndefined | Some v \<Rightarrow> v)"

fun js_prop :: "jsval \<Rightarrow> string \<Rightarrow> jsval" where
  "js_prop (JObj kvs) k = fld kvs k"
| "js_prop v k = JUndefined"

type_synonym body = "(string \<times> jsval) list"

section \<open>The store\<close>

text \<open>
  The store is the development engine of the source (SQLite behind \<^verbatim>\<open>db.run\<close>,
  \<^verbatim>\<open>db.get\<close>, \<^verbatim>\<open>db.all\<close>). A stored value is NULL, an integer or a text.
  \<open>bind\<close> is the driver's parameter binding: \<^verbatim>\<open>undefined\<close> and \<^verbatim>\<open>null\<close> are
  stored as NULL, a boolean as 0 or 1, a number and a string as they are. This is what the
  engine keeps for NULL, for an integer in an integer column and for a text in a text column.
  Two things are not modelled, and no statement below rests on them: the conversion that the
  column type applies to a value of the other kind (a numeric text bound to an integer
  column is kept by the engine as an integer, an integer bound to a text column as its
  decimal text), and the text that the driver makes of an array or an object, which is kept
  here as bound (\<open>SOther\<close>).
\<close>

datatype sqlval = SNull | SInt int | SText string | SOther jsval

fun bind :: "jsval \<Rightarrow> sqlval" where
  "bind JUndefined = SNull"
| "bind JNull = SNull"
| "bind (JBool b) = SInt (if b then 1 else 0)"
| "bind (JNum n) = SInt n"
| "bind (JStr s) = SText s"
| "bind v = SOther v"

text \<open>A column value as the driver hands it back in a result row.\<close>

fun unbind :: "sqlval \<Rightarrow> jsval" where
  "unbind SNull = JNull"
| "unbind (SInt n) = JNum n"
| "unbind (SText s) = JStr s"
| "unbind (SOther v) = v"

type_synonym row = "(string \<times> sqlval) list"

definition col :: "row \<Rightarrow> string \<Rightarrow> sqlval" where
  "col r c = (case map_of r c of None \<Rightarrow> SNull | Some v \<Rightarrow> v)"

text \<open>\<^verbatim>\<open>row.c\<close> in a callback: the column as a JavaScript value.\<close>

definition row_prop :: "row \<Rightarrow> string \<Rightarrow> jsval" where
  "row_prop r c = (case map_of r c of None \<Rightarrow> JUndefined | Some v \<Rightarrow> unbind v)"


text \<open>
  A table keeps its rows in insertion order and the largest identifier ever generated
  (\<^verbatim>\<open>INTEGER PRIMARY KEY AUTOINCREMENT\<close>).
\<close>

record table =
  rows :: "row list"
  seq :: int

type_synonym schema = "(string \<times> sqlval) list"

definition row_id :: "row \<Rightarrow> int" where
  "row_id r = (case col r ''id'' of SInt n \<Rightarrow> n | _ \<Rightarrow> 0)"

definition next_id :: "table \<Rightarrow> int" where
  "next_id t = fold max (map row_id (rows t)) (seq t) + 1"

text \<open>SQL equality in a \<^verbatim>\<open>WHERE\<close> clause: NULL equals nothing.\<close>

definition sql_eq :: "sqlval \<Rightarrow> sqlval \<Rightarrow> bool" where
  "sql_eq a b = (a \<noteq> SNull \<and> b \<noteq> SNull \<and> a = b)"

datatype db_error = UniqueViolation | StorageFailure

text \<open>
  \<^verbatim>\<open>INSERT INTO t (c1, ..., cn) VALUES (?, ..., ?)\<close>: the columns named receive the
  bound parameters, every other column its declared default, \<^verbatim>\<open>id\<close> the next
  identifier. \<open>uniq\<close> lists the columns declared \<^verbatim>\<open>UNIQUE\<close>.
\<close>

definition new_row :: "schema \<Rightarrow> (string \<times> sqlval) list \<Rightarrow> int \<Rightarrow> row" where
  "new_row sch asg i =
     (''id'', SInt i) #
     map (\<lambda>(c, d). (c, case map_of asg c of None \<Rightarrow> d | Some v \<Rightarrow> v)) sch"

definition violates :: "string list \<Rightarrow> row \<Rightarrow> table \<Rightarrow> bool" where
  "violates uniq r t =
     (\<exists>c \<in> set uniq. \<exists>r' \<in> set (rows t). sql_eq (col r' c) (col r c))"

definition sql_insert ::
  "schema \<Rightarrow> string list \<Rightarrow> (string \<times> sqlval) list \<Rightarrow> table \<Rightarrow> db_error + (int \<times> table)" where
  "sql_insert sch uniq asg t =
     (let i = next_id t; r = new_row sch asg i in
      if violates uniq r t then Inl UniqueViolation
      else Inr (i, \<lparr>rows = rows t @ [r], seq = i\<rparr>))"

text \<open>
  \<^verbatim>\<open>UPDATE t SET c1 = ?, ... WHERE p\<close>: every row selected by \<open>p\<close> gets the
  assigned columns overwritten; the result carries \<^verbatim>\<open>this.changes\<close>.
\<close>

definition set_cols :: "(string \<times> sqlval) list \<Rightarrow> row \<Rightarrow> row" where
  "set_cols asg r = map (\<lambda>(c, v). (c, case map_of asg c of None \<Rightarrow> v | Some v' \<Rightarrow> v')) r"

definition sql_update :: "(string \<times> sqlval) list \<Rightarrow> (row \<Rightarrow> bool) \<Rightarrow> table \<Rightarrow> int \<times> table" where
  "sql_update asg p t =
     (int (length (filter p (rows t))),
      t\<lparr>rows := map (\<lambda>r. if p r then set_cols asg r else r) (rows t)\<rparr>)"

definition sql_select :: "(row \<Rightarrow> bool) \<Rightarrow> table \<Rightarrow> row list" where
  "sql_select p t = filter p (rows t)"

text \<open>
  \<^verbatim>\<open>WHERE id = ?\<close> and \<^verbatim>\<open>WHERE c = ?\<close>. The route parameter \<^verbatim>\<open>:id\<close> is
  taken as the integer that the engine compares with the \<^verbatim>\<open>id\<close> column.
\<close>

definition where_id :: "int \<Rightarrow> row \<Rightarrow> bool" where
  "where_id i r = sql_eq (col r ''id'') (SInt i)"

definition where_col :: "string \<Rightarrow> sqlval \<Rightarrow> row \<Rightarrow> bool" where
  "where_col c v r = sql_eq (col r c) v"

text \<open>
  \<^verbatim>\<open>ORDER BY\<close>: NULL sorts before integers, integers before text; text is compared
  bytewise. The sort is an insertion sort over the rows in table order.
\<close>

fun sql_less :: "sqlval \<Rightarrow> sqlval \<Rightarrow> bool" where
  "sql_less SNull b = (b \<noteq> SNull)"
| "sql_less (SInt m) (SInt n) = (m < n)"
| "sql_less (SInt m) SNull = False"
| "sql_less (SInt m) b = True"
| "sql_less (SText s) (SText t) = (s < t)"
| "sql_less (SText s) (SOther v) = True"
| "sql_less (SText s) b = False"
| "sql_less (SOther v) b = False"

fun row_before :: "(string \<times> bool) list \<Rightarrow> row \<Rightarrow> row \<Rightarrow> bool" where
  "row_before [] r1 r2 = False"
| "row_before ((c, asc) # ks) r1 r2 =
     (if col r1 c = col r2 c then row_before ks r1 r2
      else if asc then sql_less (col r1 c) (col r2 c) else sql_less (col r2 c) (col r1 c))"

fun insert_by :: "(string \<times> bool) list \<Rightarrow> row \<Rightarrow> row list \<Rightarrow> row list" where
  "insert_by ks r [] = [r]"
| "insert_by ks r (x # xs) = (if row_before ks r x then r # x # xs else x # insert_by ks r xs)"

definition order_by :: "(string \<times> bool) list \<Rightarrow> row list \<Rightarrow> row list" where
  "order_by ks rs = foldl (\<lambda>acc r. insert_by ks r acc) [] rs"

record store =
  users :: table
  projects :: table
  ideas :: table
  "notes" :: table
  career_goals :: table
  future_work :: table
  deadlines :: table
  calendar_events :: table
  profiles :: table

section \<open>What a handler reads from its environment\<close>

text \<open>
  \<open>now\<close> is the value of \<^verbatim>\<open>new Date().toISOString()\<close> read in the handler body,
  \<open>now_cb\<close> the one read later inside a storage callback. \<open>get_err\<close> and
  \<open>run_err\<close> say whether the engine reports a failure (\<^verbatim>\<open>err\<close>) for the fetch and
  for the execute of this request. The library primitives \<^verbatim>\<open>bcrypt.hash\<close>,
  \<^verbatim>\<open>bcrypt.compare\<close>, \<^verbatim>\<open>JSON.stringify\<close> and \<^verbatim>\<open>JSON.parse\<close> are
  taken as given; \<open>None\<close> is a rejected promise or a thrown exception.
\<close>

record env =
  now :: string
  now_cb :: string
  get_err :: bool
  run_err :: bool
  bcrypt_hash :: "jsval \<Rightarrow> nat \<Rightarrow> string option"
  bcrypt_compare :: "jsval \<Rightarrow> jsval \<Rightarrow> bool option"
  json_stringify :: "jsval \<Rightarrow> string"
  json_parse :: "jsval \<Rightarrow> jsval option"

text \<open>
  A request ends with a response (status and the object given to \<^verbatim>\<open>res.json\<close>; a key
  whose value is \<^verbatim>\<open>undefined\<close> is left out when the object is serialised) or with an
  exception that leaves a storage callback, which nothing catches under the development
  engine, so that no response is sent.
\<close>

datatype reply = Respond nat jsval | Uncaught string

definition db_run_insert ::
  "env \<Rightarrow> schema \<Rightarrow> string list \<Rightarrow> (string \<times> sqlval) list \<Rightarrow> table \<Rightarrow> db_error + (int \<times> table)" where
  "db_run_insert e sch uniq asg t =
     (if run_err e then Inl StorageFailure else sql_insert sch uniq asg t)"

definition db_run_update ::
  "env \<Rightarrow> (string \<times> sqlval) list \<Rightarrow> (row \<Rightarrow> bool) \<Rightarrow> table \<Rightarrow> db_error + (int \<times> table)" where
  "db_run_update e asg p t =
     (if run_err e then Inl StorageFailure else Inr (sql_update asg p t))"

definition db_all ::
  "env \<Rightarrow> (row \<Rightarrow> bool) \<Rightarrow> (string \<times> bool) list \<Rightarrow> table \<Rightarrow> db_error + row list" where
  "db_all e p ks t =
     (if get_err e then Inl StorageFailure else Inr (order_by ks (sql_select p t)))"

definition db_get :: "env \<Rightarrow> (row \<Rightarrow> bool) \<Rightarrow> table \<Rightarrow> db_error + row option" where
  "db_get e p t =
     (if get_err e then Inl StorageFailure
      else Inr (case sql_select p t of [] \<Rightarrow> None | r # _ \<Rightarrow> Some r))"

definition err_body :: "string \<Rightarrow> jsval" where
  "err_body m = JObj [(''error'', JStr m)]"

section \<open>Ideas, notes, career goals, future work, deadlines\<close>

definition ideas_schema :: schema where
  "ideas_schema =
     [(''user_email'', SNull), (''title'', SNull), (''content'', SNull),
      (''category'', SText ''general''), (''created_date'', SNull)]"

definition post_ideas :: "env \<Rightarrow> store \<Rightarrow> body \<Rightarrow> reply \<times> store" where
  "post_ideas e st b =
     (let user_email = fld b ''user_email''; title = fld b ''title'';
          content = fld b ''content''; category = fld b ''category'';
          created_date = fld b ''created_date'';
          date = js_or created_date (JStr (now e))
      in case db_run_insert e ideas_schema []
                [(''user_email'', bind user_email), (''title'', bind title),
                 (''content'', bind content),
                 (''category'', bind (js_or category (JStr ''general''))),
                 (''created_date'', bind date)] (ideas st) of
           Inl err \<Rightarrow> (Respond 500 (err_body ''Error creating idea.''), st)
         | Inr (lastID, t) \<Rightarrow>
             (Respond 200 (JObj [(''id'', JNum lastID), (''user_email'', user_email),
                (''title'', title), (''content'', content), (''category'', category),
                (''created_date'', date)]),
              st\<lparr>ideas := t\<rparr>))"

definition put_ideas :: "env \<Rightarrow> store \<Rightarrow> int \<Rightarrow> body \<Rightarrow> reply \<times> store" where
  "put_ideas e st i b =
     (let title = fld b ''title''; content = fld b ''content'';
          category = fld b ''category''
      in case db_run_update e
                [(''title'', bind title), (''content'', bind content),
                 (''category'', bind category)] (where_id i) (ideas st) of
           Inl err \<Rightarrow> (Respond 500 (err_body ''Error updating idea.''), st)
         | Inr (changes, t) \<Rightarrow>
             (Respond 200 (JObj [(''updated'', JNum changes)]), st\<lparr>ideas := t\<rparr>))"

definition notes_schema :: schema where
  "notes_schema =
     [(''user_email'', SNull), (''title'', SNull), (''content'', SNull),
      (''created_date'', SNull)]"

definition post_notes :: "env \<Rightarrow> store \<Rightarrow> body \<Rightarrow> reply \<times> store" where
  "post_notes e st b =
     (let user_email = fld b ''user_email''; title = fld b ''title'';
          content = fld b ''content''; created_date = fld b ''created_date'';
          date = js_or created_date (JStr (now e))
      in case db_run_insert e notes_schema []
                [(''user_email'', bind user_email), (''title'', bind title),
                 (''content'', bind content), (''created_date'', bind date)] (notes st) of
           Inl err \<Rightarrow> (Respond 500 (err_body ''Error creating note.''), st)
         | Inr (lastID, t) \<Rightarrow>
             (Respond 200 (JObj [(''id'', JNum lastID), (''user_email'', user_email),
                (''title'', title), (''content'', content), (''created_date'', date)]),
              st\<lparr>notes := t\<rparr>))"

definition put_notes :: "env \<Rightarrow> store \<Rightarrow> int \<Rightarrow> body \<Rightarrow> reply \<times> store" where
  "put_notes e st i b =
     (let title = fld b ''title''; content = fld b ''content''
      in case db_run_update e
                [(''title'', bind title), (''content'', bind content)]
                (where_id i) (notes st) of
           Inl err \<Rightarrow> (Respond 500 (err_body ''Error updating note.''), st)
         | Inr (changes, t) \<Rightarrow>
             (Respond 200 (JObj [(''updated'', JNum changes)]), st\<lparr>notes := t\<rparr>))"

text \<open>
  \<^verbatim>\<open>career_goals\<close> with the four columns that the start-up \<^verbatim>\<open>ALTER TABLE\<close>
  statements add.
\<close>

definition career_goals_schema :: schema where
  "career_goals_schema =
     [(''user_email'', SNull), (''title'', SNull), (''description'', SNull),
      (''progress'', SInt 0), (''goal_type'', SText ''general''), (''target_date'', SNull),
      (''created_date'', SNull), (''total_stages'', SInt 5), (''current_stage'', SInt 0),
      (''start_date'', SNull), (''stage_description'', SNull)]"

definition post_career_goals :: "env \<Rightarrow> store \<Rightarrow> body \<Rightarrow> reply \<times> store" where
  "post_career_goals e st b =
     (let user_email = fld b ''user_email''; title = fld b ''title'';
          description = fld b ''description''; progress = fld b ''progress'';
          goal_type = fld b ''goal_type''; target_date = fld b ''target_date'';
          total_stages = fld b ''total_stages''; current_stage = fld b ''current_stage'';
          start_date = fld b ''start_date''; stage_description = fld b ''stage_description'';
          created_date = fld b ''created_date'';
          date = js_or created_date (JStr (now e))
      in case db_run_insert e career_goals_schema []
                [(''user_email'', bind user_email), (''title'', bind title),
                 (''description'', bind description),
                 (''progress'', bind (js_or progress (JNum 0))),
                 (''goal_type'', bind (js_or goal_type (JStr ''general''))),
                 (''target_date'', bind target_date),
                 (''total_stages'', bind (js_or total_stages (JNum 5))),
                 (''current_stage'', bind (js_or current_stage (JNum 0))),
                 (''start_date'', bind start_date),
                 (''stage_description'', bind stage_description),
                 (''created_date'', bind date)] (career_goals st) of
           Inl err \<Rightarrow> (Respond 500 (err_body ''Error creating career goal.''), st)
         | Inr (lastID, t) \<Rightarrow>
             (Respond 200 (JObj [(''id'', JNum lastID), (''user_email'', user_email),
                (''title'', title), (''description'', description), (''progress'', progress),
                (''goal_type'', goal_type), (''target_date'', target_date),
                (''total_stages'', total_stages), (''current_stage'', current_stage),
                (''start_date'', start_date), (''stage_description'', stage_description),
                (''created_date'', date)]),
              st\<lparr>career_goals := t\<rparr>))"

definition put_career_goals :: "env \<Rightarrow> store \<Rightarrow> int \<Rightarrow> body \<Rightarrow> reply \<times> store" where
  "put_career_goals e st i b =
     (let title = fld b ''title''; description = fld b ''description'';
          progress = fld b ''progress''; goal_type = fld b ''goal_type'';
          target_date = fld b ''target_date''; total_stages = fld b ''total_stages'';
          current_stage = fld b ''current_stage''; start_date = fld b ''start_date'';
          stage_description = fld b ''stage_description''
      in case db_run_update e
                [(''title'', bind title), (''description'', bind description),
                 (''progress'', bind progress), (''goal_type'', bind goal_type),
                 (''target_date'', bind target_date), (''total_stages'', bind total_stages),
                 (''current_stage'', bind current_stage), (''start_date'', bind start_date),
                 (''stage_description'', bind stage_description)]
                (where_id i) (career_goals st) of
           Inl err \<Rightarrow> (Respond 500 (err_body ''Error updating career goal.''), st)
         | Inr (changes, t) \<Rightarrow>
             (Respond 200 (JObj [(''updated'', JNum changes)]), st\<lparr>career_goals := t\<rparr>))"

definition future_work_schema :: schema where
  "future_work_schema =
     [(''user_email'', SNull), (''title'', SNull), (''description'', SNull),
      (''priority'', SText ''medium''), (''timeline'', SNull), (''created_date'', SNull)]"

definition post_future_work :: "env \<Rightarrow> store \<Rightarrow> body \<Rightarrow> reply \<times> store" where
  "post_future_work e st b =
     (let user_email = fld b ''user_email''; title = fld b ''title'';
          description = fld b ''description''; priority = fld b ''priority'';
          timeline = fld b ''timeline''; created_date = fld b ''created_date'';
          date = js_or created_date (JStr (now e))
      in case db_run_insert e future_work_schema []
                [(''user_email'', bind user_email), (''title'', bind title),
                 (''description'', bind description),
                 (''priority'', bind (js_or priority (JStr ''medium''))),
                 (''timeline'', bind timeline), (''created_date'', bind date)]
                (future_work st) of
           Inl err \<Rightarrow> (Respond 500 (err_body ''Error creating future work.''), st)
         | Inr (lastID, t) \<Rightarrow>
             (Respond 200 (JObj [(''id'', JNum lastID), (''user_email'', user_email),
                (''title'', title), (''description'', description), (''priority'', priority),
                (''timeline'', timeline), (''created_date'', date)]),
              st\<lparr>future_work := t\<rparr>))"

definition put_future_work :: "env \<Rightarrow> store \<Rightarrow> int \<Rightarrow> body \<Rightarrow> reply \<times> store" where
  "put_future_work e st i b =
     (let title = fld b ''title''; description = fld b ''description'';
          priority = fld b ''priority''; timeline = fld b ''timeline''
      in case db_run_update e
                [(''title'', bind title), (''description'', bind description),
                 (''priority'', bind priority), (''timeline'', bind timeline)]
                (where_id i) (future_work st) of
           Inl err \<Rightarrow> (Respond 500 (err_body ''Error updating future work.''), st)
         | Inr (changes, t) \<Rightarrow>
             (Respond 200 (JObj [(''updated'', JNum changes)]), st\<lparr>future_work := t\<rparr>))"

definition deadlines_schema :: schema where
  "deadlines_schema =
     [(''user_email'', SNull), (''title'', SNull), (''description'', SNull),
      (''due_date'', SNull), (''priority'', SText ''medium''), (''status'', SText ''pending''),
      (''created_date'', SNull)]"

definition post_deadlines :: "env \<Rightarrow> store \<Rightarrow> body \<Rightarrow> reply \<times> store" where
  "post_deadlines e st b =
     (let user_email = fld b ''user_email''; title = fld b ''title'';
          description = fld b ''description''; due_date = fld b ''due_date'';
          priority = fld b ''priority''; status = fld b ''status'';
          created_date = fld b ''created_date'';
          date = js_or created_date (JStr (now e))
      in case db_run_insert e deadlines_schema []
                [(''user_email'', bind user_email), (''title'', bind title),
                 (''description'', bind description), (''due_date'', bind due_date),
                 (''priority'', bind (js_or priority (JStr ''medium''))),
                 (''status'', bind (js_or status (JStr ''pending''))),
                 (''created_date'', bind date)] (deadlines st) of
           Inl err \<Rightarrow> (Respond 500 (err_body ''Error creating deadline.''), st)
         | Inr (lastID, t) \<Rightarrow>
             (Respond 200 (JObj [(''id'', JNum lastID), (''user_email'', user_email),
                (''title'', title), (''description'', description), (''due_date'', due_date),
                (''priority'', priority), (''status'', status), (''created_date'', date)]),
              st\<lparr>deadlines := t\<rparr>))"

definition put_deadlines :: "env \<Rightarrow> store \<Rightarrow> int \<Rightarrow> body \<Rightarrow> reply \<times> store" where
  "put_deadlines e st i b =
     (let title = fld b ''title''; description = fld b ''description'';
          due_date = fld b ''due_date''; priority = fld b ''priority'';
          status = fld b ''status''
      in case db_run_update e
                [(''title'', bind title), (''description'', bind description),
                 (''due_date'', bind due_date), (''priority'', bind priority),
                 (''status'', bind status)]
                (where_id i) (deadlines st) of
           Inl err \<Rightarrow> (Respond 500 (err_body ''Error updating deadline.''), st)
         | Inr (changes, t) \<Rightarrow>
             (Respond 200 (JObj [(''updated'', JNum changes)]), st\<lparr>deadlines := t\<rparr>))"

section \<open>Projects\<close>

text \<open>
  \<^verbatim>\<open>projects\<close> with the columns that the start-up \<^verbatim>\<open>ALTER TABLE\<close> statements add
  (\<^verbatim>\<open>notes\<close> and \<^verbatim>\<open>progress\<close> exist already and are not added twice).
\<close>

definition projects_schema :: schema where
  "projects_schema =
     [(''name'', SNull), (''owner_email'', SNull), (''colleagues'', SText ''[]''),
      (''progress'', SInt 0), (''project_title'', SNull), (''notes'', SNull),
      (''colleague_name'', SNull), (''colleague_phone'', SNull),
      (''colleague_email'', SNull), (''colleague_address1'', SNull),
      (''colleague_address2'', SNull), (''colleague_address3'', SNull),
      (''your_name'', SNull), (''your_phone'', SNull), (''your_email'', SNull),
      (''your_address1'', SNull), (''your_address2'', SNull), (''your_address3'', SNull),
      (''objectives'', SNull), (''timeline'', SNull), (''primary_audience'', SNull),
      (''secondary_audience'', SNull), (''call_action'', SNull), (''competition'', SNull),
      (''graphics'', SNull), (''photography'', SNull), (''multimedia'', SNull),
      (''other_info'', SNull), (''client_name'', SNull), (''client_comments'', SNull),
      (''approval_date'', SNull), (''approval_signature'', SNull), (''idea'', SNull),
      (''career_goals'', SNull), (''future_work'', SNull), (''deadlines'', SNull)]"

definition post_projects :: "env \<Rightarrow> store \<Rightarrow> body \<Rightarrow> reply \<times> store" where
  "post_projects e st b =
     (let name = fld b ''name''; owner_email = fld b ''owner_email'';
          colleagues = fld b ''colleagues''; progress = fld b ''progress''
      in if \<not> truthy name \<or> \<not> truthy owner_email
         then (Respond 400 (err_body ''Project name and owner email are required.''), st)
         else case db_run_insert e projects_schema []
                [(''name'', bind name), (''owner_email'', bind owner_email),
                 (''colleagues'', bind (js_or colleagues (JStr ''[]''))),
                 (''progress'', bind (js_or progress (JNum 0)))] (projects st) of
           Inl err \<Rightarrow> (Respond 500 (err_body ''Error creating project.''), st)
         | Inr (lastID, t) \<Rightarrow>
             (Respond 200 (JObj [(''id'', JNum lastID), (''name'', name),
                (''owner_email'', owner_email), (''colleagues'', colleagues),
                (''progress'', js_or progress (JNum 0))]),
              st\<lparr>projects := t\<rparr>))"

definition put_projects :: "env \<Rightarrow> store \<Rightarrow> int \<Rightarrow> body \<Rightarrow> reply \<times> store" where
  "put_projects e st i b =
     (let name = fld b ''name''; colleagues = fld b ''colleagues'';
          progress = fld b ''progress''
      in case db_run_update e
                [(''name'', bind name), (''colleagues'', bind colleagues),
                 (''progress'', bind (if progress \<noteq> JUndefined then progress else JNum 0))]
                (where_id i) (projects st) of
           Inl err \<Rightarrow> (Respond 500 (err_body ''Error updating project.''), st)
         | Inr (changes, t) \<Rightarrow>
             (Respond 200 (JObj [(''updated'', JNum changes)]), st\<lparr>projects := t\<rparr>))"

definition put_projects_description :: "env \<Rightarrow> store \<Rightarrow> int \<Rightarrow> body \<Rightarrow> reply \<times> store" where
  "put_projects_description e st i b =
     (case db_run_update e
        [(''project_title'', bind (fld b ''projectTitle'')),
         (''notes'', bind (fld b ''notes'')),
         (''colleague_name'', bind (fld b ''colleagueName'')),
         (''colleague_phone'', bind (fld b ''colleaguePhone'')),
         (''colleague_email'', bind (fld b ''colleagueEmail'')),
         (''colleague_address1'', bind (fld b ''colleagueAddress1'')),
         (''colleague_address2'', bind (fld b ''colleagueAddress2'')),
         (''colleague_address3'', bind (fld b ''colleagueAddress3'')),
         (''your_name'', bind (fld b ''yourName'')),
         (''your_phone'', bind (fld b ''yourPhone'')),
         (''your_email'', bind (fld b ''yourEmail'')),
         (''your_address1'', bind (fld b ''yourAddress1'')),
         (''your_address2'', bind (fld b ''yourAddress2'')),
         (''your_address3'', bind (fld b ''yourAddress3'')),
         (''objectives'', bind (fld b ''objectives'')),
         (''timeline'', bind (fld b ''timeline'')),
         (''primary_audience'', bind (fld b ''primaryAudience'')),
         (''secondary_audience'', bind (fld b ''secondaryAudience'')),
         (''call_action'', bind (fld b ''callAction'')),
         (''competition'', bind (fld b ''competition'')),
         (''graphics'', bind (fld b ''graphics'')),
         (''photography'', bind (fld b ''photography'')),
         (''multimedia'', bind (fld b ''multimedia'')),
         (''other_info'', bind (fld b ''otherInfo'')),
         (''client_name'', bind (fld b ''clientName'')),
         (''client_comments'', bind (fld b ''clientComments'')),
         (''approval_date'', bind (fld b ''approvalDate'')),
         (''approval_signature'', bind (fld b ''approvalSignature''))]
        (where_id i) (projects st) of
       Inl err \<Rightarrow> (Respond 500 (err_body ''Error updating description.''), st)
     | Inr (changes, t) \<Rightarrow>
         (Respond 200 (JObj [(''updated'', JNum changes)]), st\<lparr>projects := t\<rparr>))"

section \<open>Calendar events\<close>

definition calendar_events_schema :: schema where
  "calendar_events_schema =
     [(''user_email'', SNull), (''title'', SNull), (''description'', SNull),
      (''event_date'', SNull), (''start_time'', SNull), (''end_time'', SNull),
      (''location'', SNull), (''category'', SText ''Work''), (''attendees'', SNull),
      (''reminder'', SInt 15), (''is_all_day'', SInt 0), (''recurrence'', SText ''none''),
      (''recurrence_end'', SNull), (''show_as'', SText ''busy''),
      (''priority'', SText ''normal''), (''is_online'', SInt 0), (''meeting_link'', SNull),
      (''attachments'', SNull), (''repeat_weekly'', SInt 0), (''created_date'', SNull),
      (''modified_date'', SNull)]"

text \<open>The column list of \<^verbatim>\<open>GET /events/:email\<close>: each column with its \<^verbatim>\<open>as\<close> name.\<close>

definition events_columns :: "(string \<times> string) list" where
  "events_columns =
     [(''id'', ''id''), (''title'', ''title''), (''description'', ''description''),
      (''event_date'', ''date''), (''start_time'', ''start''), (''end_time'', ''end''),
      (''location'', ''location''), (''category'', ''category''),
      (''attendees'', ''attendees''), (''reminder'', ''reminder''),
      (''is_all_day'', ''isAllDay''), (''recurrence'', ''recurrence''),
      (''recurrence_end'', ''recurrenceEnd''), (''show_as'', ''showAs''),
      (''priority'', ''priority''), (''is_online'', ''isOnline''),
      (''meeting_link'', ''meetingLink''), (''attachments'', ''attachments''),
      (''repeat_weekly'', ''repeatWeekly''), (''created_date'', ''createdDate''),
      (''modified_date'', ''modifiedDate'')]"

definition select_as :: "(string \<times> string) list \<Rightarrow> row \<Rightarrow> (string \<times> jsval) list" where
  "select_as cs r = map (\<lambda>(c, a). (a, unbind (col r c))) cs"

text \<open>
  \<^verbatim>\<open>{...row, k: v}\<close>: a key of the spread object keeps its place and takes the new value,
  a new key goes last.
\<close>

definition with_key :: "(string \<times> jsval) list \<Rightarrow> string \<Rightarrow> jsval \<Rightarrow> (string \<times> jsval) list" where
  "with_key kvs k v =
     (if k \<in> fst ` set kvs then map (\<lambda>(k', v'). (k', if k' = k then v else v')) kvs
      else kvs @ [(k, v)])"

definition event_json :: "(string \<times> jsval) list \<Rightarrow> jsval" where
  "event_json r =
     JObj (with_key (with_key (with_key r
        ''isAllDay'' (js_Boolean (fld r ''isAllDay'')))
        ''isOnline'' (js_Boolean (fld r ''isOnline'')))
        ''repeatWeekly'' (js_Boolean (fld r ''repeatWeekly'')))"

definition get_events :: "env \<Rightarrow> store \<Rightarrow> string \<Rightarrow> reply" where
  "get_events e st email =
     (case db_all e (where_col ''user_email'' (SText email))
             [(''event_date'', True), (''start_time'', True)] (calendar_events st) of
        Inl err \<Rightarrow> Respond 500 (err_body ''Error fetching events.'')
      | Inr rs \<Rightarrow> Respond 200 (JArr (map (\<lambda>r. event_json (select_as events_columns r)) rs)))"

definition flag :: "jsval \<Rightarrow> jsval" where
  "flag v = (if truthy v then JNum 1 else JNum 0)"

definition post_events :: "env \<Rightarrow> store \<Rightarrow> body \<Rightarrow> reply \<times> store" where
  "post_events e st b =
     (let userEmail = fld b ''userEmail''; title = fld b ''title'';
          description = fld b ''description''; date = fld b ''date'';
          start = fld b ''start''; end = fld b ''end''; location = fld b ''location'';
          category = fld b ''category''; attendees = fld b ''attendees'';
          reminder = fld b ''reminder''; isAllDay = fld b ''isAllDay'';
          recurrence = fld b ''recurrence''; recurrenceEnd = fld b ''recurrenceEnd'';
          showAs = fld b ''showAs''; priority = fld b ''priority'';
          isOnline = fld b ''isOnline''; meetingLink = fld b ''meetingLink'';
          attachments = fld b ''attachments''; repeatWeekly = fld b ''repeatWeekly'';
          created_date = JStr (now e); modified_date = created_date
      in case db_run_insert e calendar_events_schema []
                [(''user_email'', bind userEmail), (''title'', bind title),
                 (''description'', bind description), (''event_date'', bind date),
                 (''start_time'', bind start), (''end_time'', bind end),
                 (''location'', bind location),
                 (''category'', bind (js_or category (JStr ''Work''))),
                 (''attendees'', bind attendees),
                 (''reminder'', bind (js_or reminder (JNum 15))),
                 (''is_all_day'', bind (flag isAllDay)),
                 (''recurrence'', bind (js_or recurrence (JStr ''none''))),
                 (''recurrence_end'', bind recurrenceEnd),
                 (''show_as'', bind (js_or showAs (JStr ''busy''))),
                 (''priority'', bind (js_or priority (JStr ''normal''))),
                 (''is_online'', bind (flag isOnline)),
                 (''meeting_link'', bind meetingLink), (''attachments'', bind attachments),
                 (''repeat_weekly'', bind (flag repeatWeekly)),
                 (''created_date'', bind created_date),
                 (''modified_date'', bind modified_date)] (calendar_events st) of
           Inl err \<Rightarrow> (Respond 500 (err_body ''Error creating event.''), st)
         | Inr (lastID, t) \<Rightarrow>
             (Respond 200 (JObj [(''id'', JNum lastID), (''title'', title),
                (''description'', description), (''date'', date), (''start'', start),
                (''end'', end), (''location'', location), (''category'', category),
                (''created_date'', created_date)]),
              st\<lparr>calendar_events := t\<rparr>))"

definition put_events :: "env \<Rightarrow> store \<Rightarrow> int \<Rightarrow> body \<Rightarrow> reply \<times> store" where
  "put_events e st i b =
     (let title = fld b ''title''; description = fld b ''description'';
          date = fld b ''date''; start = fld b ''start''; end = fld b ''end'';
          location = fld b ''location''; category = fld b ''category'';
          attendees = fld b ''attendees''; reminder = fld b ''reminder'';
          isAllDay = fld b ''isAllDay''; recurrence = fld b ''recurrence'';
          recurrenceEnd = fld b ''recurrenceEnd''; showAs = fld b ''showAs'';
          priority = fld b ''priority''; isOnline = fld b ''isOnline'';
          meetingLink = fld b ''meetingLink''; attachments = fld b ''attachments'';
          repeatWeekly = fld b ''repeatWeekly''; modified_date = JStr (now e)
      in case db_run_update e
                [(''title'', bind title), (''description'', bind description),
                 (''event_date'', bind date), (''start_time'', bind start),
                 (''end_time'', bind end), (''location'', bind location),
                 (''category'', bind category), (''attendees'', bind attendees),
                 (''reminder'', bind reminder), (''is_all_day'', bind (flag isAllDay)),
                 (''recurrence'', bind recurrence), (''recurrence_end'', bind recurrenceEnd),
                 (''show_as'', bind showAs), (''priority'', bind priority),
                 (''is_online'', bind (flag isOnline)), (''meeting_link'', bind meetingLink),
                 (''attachments'', bind attachments),
                 (''repeat_weekly'', bind (flag repeatWeekly)),
                 (''modified_date'', bind modified_date)]
                (where_id i) (calendar_events st) of
           Inl err \<Rightarrow> (Respond 500 (err_body ''Error updating event.''), st)
         | Inr (changes, t) \<Rightarrow>
             (Respond 200 (JObj [(''updated'', JNum changes)]), st\<lparr>calendar_events := t\<rparr>))"

subsection \<open>The legacy endpoints on the same table\<close>



definition put_calendar_events :: "env \<Rightarrow> store \<Rightarrow> int \<Rightarrow> body \<Rightarrow> reply \<times> store" where
  "put_calendar_events e st i b =
     (let title = fld b ''title''; description = fld b ''description'';
          event_date = fld b ''event_date''; start_time = fld b ''start_time'';
          end_time = fld b ''end_time''; repeat_weekly = fld b ''repeat_weekly''
      in case db_run_update e
                [(''title'', bind title), (''description'', bind description),
                 (''event_date'', bind event_date), (''start_time'', bind start_time),
                 (''end_time'', bind end_time), (''repeat_weekly'', bind repeat_weekly)]
                (where_id i) (calendar_events st) of
           Inl err \<Rightarrow> (Respond 500 (err_body ''Error updating event.''), st)
         | Inr (changes, t) \<Rightarrow>
             (Respond 200 (JObj [(''updated'', JNum changes)]), st\<lparr>calendar_events := t\<rparr>))"

section \<open>Profile\<close>

definition profiles_schema :: schema where
  "profiles_schema =
     [(''user_email'', SNull), (''full_name'', SNull), (''designation'', SNull),
      (''department'', SNull), (''institution'', SNull), (''office_address'', SNull),
      (''official_email'', SNull), (''alternate_email'', SNull), (''phone'', SNull),
      (''website'', SNull), (''degrees'', SNull), (''employment'', SNull),
      (''research_keywords'', SNull), (''research_description'', SNull),
      (''scholar_link'', SNull), (''courses'', SNull), (''grants'', SNull),
      (''professional_activities'', SNull), (''awards'', SNull), (''skills'', SNull),
      (''outreach_service'', SNull), (''created_date'', SNull), (''modified_date'', SNull)]"

text \<open>\<^verbatim>\<open>row.c ? JSON.parse(row.c) : []\<close>; \<open>None\<close> when \<^verbatim>\<open>JSON.parse\<close> throws.\<close>

definition parse_list :: "env \<Rightarrow> jsval \<Rightarrow> jsval option" where
  "parse_list e v = (if truthy v then json_parse e v else Some (JArr []))"

text \<open>
  The callback of \<^verbatim>\<open>GET /profile/:email\<close> has no \<^verbatim>\<open>try\<close>: an exception of
  \<^verbatim>\<open>JSON.parse\<close> leaves it, and no response is sent. The five list fields are parsed in
  the order of the object literal.
\<close>

definition get_profile :: "env \<Rightarrow> store \<Rightarrow> string \<Rightarrow> reply" where
  "get_profile e st email =
     (case db_get e (where_col ''user_email'' (SText email)) (profiles st) of
        Inl err \<Rightarrow> Respond 500 (err_body ''Error fetching profile.'')
      | Inr None \<Rightarrow> Respond 200 JNull
      | Inr (Some row) \<Rightarrow>
         (case parse_list e (row_prop row ''degrees'') of
            None \<Rightarrow> Uncaught ''SyntaxError''
          | Some degrees \<Rightarrow>
         (case parse_list e (row_prop row ''employment'') of
            None \<Rightarrow> Uncaught ''SyntaxError''
          | Some employment \<Rightarrow>
         (case parse_list e (row_prop row ''courses'') of
            None \<Rightarrow> Uncaught ''SyntaxError''
          | Some courses \<Rightarrow>
         (case parse_list e (row_prop row ''grants'') of
            None \<Rightarrow> Uncaught ''SyntaxError''
          | Some grants \<Rightarrow>
         (case parse_list e (row_prop row ''awards'') of
            None \<Rightarrow> Uncaught ''SyntaxError''
          | Some awards \<Rightarrow>
             Respond 200 (JObj
               [(''userEmail'', row_prop row ''user_email''),
                (''fullName'', row_prop row ''full_name''),
                (''designation'', row_prop row ''designation''),
                (''department'', row_prop row ''department''),
                (''institution'', row_prop row ''institution''),
                (''officeAddress'', row_prop row ''office_address''),
                (''officialEmail'', row_prop row ''official_email''),
                (''alternateEmail'', row_prop row ''alternate_email''),
                (''phone'', row_prop row ''phone''),
                (''website'', row_prop row ''website''),
                (''degrees'', degrees),
                (''employment'', employment),
                (''researchKeywords'', row_prop row ''research_keywords''),
                (''researchDescription'', row_prop row ''research_description''),
                (''scholarLink'', row_prop row ''scholar_link''),
                (''courses'', courses),
                (''grants'', grants),
                (''professionalActivities'', row_prop row ''professional_activities''),
                (''awards'', awards),
                (''skills'', row_prop row ''skills''),
                (''outreachService'', row_prop row ''outreach_service'')])))))))"

definition post_profile :: "env \<Rightarrow> store \<Rightarrow> body \<Rightarrow> reply \<times> store" where
  "post_profile e st b =
     (let userEmail = fld b ''userEmail'' in
      if \<not> truthy userEmail
      then (Respond 400 (err_body ''User email is required.''), st)
      else
       let modifiedDate = JStr (now e) in
       case db_get e (where_col ''user_email'' (bind userEmail)) (profiles st) of
         Inl err \<Rightarrow> (Respond 500 (err_body ''Error saving profile.''), st)
       | Inr row \<Rightarrow>
          (let degreesJson = JStr (json_stringify e (js_or (fld b ''degrees'') (JArr [])));
               employmentJson = JStr (json_stringify e (js_or (fld b ''employment'') (JArr [])));
               coursesJson = JStr (json_stringify e (js_or (fld b ''courses'') (JArr [])));
               grantsJson = JStr (json_stringify e (js_or (fld b ''grants'') (JArr [])));
               awardsJson = JStr (json_stringify e (js_or (fld b ''awards'') (JArr [])))
           in if row \<noteq> None then
             (case db_run_update e
                [(''full_name'', bind (fld b ''fullName'')),
                 (''designation'', bind (fld b ''designation'')),
                 (''department'', bind (fld b ''department'')),
                 (''institution'', bind (fld b ''institution'')),
                 (''office_address'', bind (fld b ''officeAddress'')),
                 (''official_email'', bind (fld b ''officialEmail'')),
                 (''alternate_email'', bind (fld b ''alternateEmail'')),
                 (''phone'', bind (fld b ''phone'')),
                 (''website'', bind (fld b ''website'')),
                 (''degrees'', bind degreesJson),
                 (''employment'', bind employmentJson),
                 (''research_keywords'', bind (fld b ''researchKeywords'')),
                 (''research_description'', bind (fld b ''researchDescription'')),
                 (''scholar_link'', bind (fld b ''scholarLink'')),
                 (''courses'', bind coursesJson),
                 (''grants'', bind grantsJson),
                 (''professional_activities'', bind (fld b ''professionalActivities'')),
                 (''awards'', bind awardsJson),
                 (''skills'', bind (fld b ''skills'')),
                 (''outreach_service'', bind (fld b ''outreachService'')),
                 (''modified_date'', bind modifiedDate)]
                (where_col ''user_email'' (bind userEmail)) (profiles st) of
                Inl err \<Rightarrow> (Respond 500 (err_body ''Error updating profile.''), st)
              | Inr (changes, t) \<Rightarrow>
                  (Respond 200 (JObj [(''message'', JStr ''Profile updated successfully''),
                     (''updated'', JNum changes)]),
                   st\<lparr>profiles := t\<rparr>))
           else
             (let createdDate = JStr (now_cb e) in
              case db_run_insert e profiles_schema [''user_email'']
                [(''user_email'', bind userEmail),
                 (''full_name'', bind (fld b ''fullName'')),
                 (''designation'', bind (fld b ''designation'')),
                 (''department'', bind (fld b ''department'')),
                 (''institution'', bind (fld b ''institution'')),
                 (''office_address'', bind (fld b ''officeAddress'')),
                 (''official_email'', bind (fld b ''officialEmail'')),
                 (''alternate_email'', bind (fld b ''alternateEmail'')),
                 (''phone'', bind (fld b ''phone'')),
                 (''website'', bind (fld b ''website'')),
                 (''degrees'', bind degreesJson),
                 (''employment'', bind employmentJson),
                 (''research_keywords'', bind (fld b ''researchKeywords'')),
                 (''research_description'', bind (fld b ''researchDescription'')),
                 (''scholar_link'', bind (fld b ''scholarLink'')),
                 (''courses'', bind coursesJson),
                 (''grants'', bind grantsJson),
                 (''professional_activities'', bind (fld b ''professionalActivities'')),
                 (''awards'', bind awardsJson),
                 (''skills'', bind (fld b ''skills'')),
                 (''outreach_service'', bind (fld b ''outreachService'')),
                 (''created_date'', bind createdDate),
                 (''modified_date'', bind modifiedDate)] (profiles st) of
                Inl err \<Rightarrow> (Respond 500 (err_body ''Error creating profile.''), st)
              | Inr (lastID, t) \<Rightarrow>
                  (Respond 200 (JObj [(''message'', JStr ''Profile created successfully''),
                     (''id'', JNum lastID)]),
                   st\<lparr>profiles := t\<rparr>))))"

section \<open>Register, signup, login\<close>

definition users_schema :: schema where
  "users_schema = [(''email'', SNull), (''password'', SNull)]"

text \<open>
  \<^verbatim>\<open>email.toLowerCase().trim()\<close>, on ASCII. A value that is not a string has no
  \<^verbatim>\<open>toLowerCase\<close>: the call throws a TypeError (\<open>None\<close>).
\<close>

definition lower_char :: "char \<Rightarrow> char" where
  "lower_char c =
     (case map_of (zip ''ABCDEFGHIJKLMNOPQRSTUVWXYZ'' ''abcdefghijklmnopqrstuvwxyz'') c of
        None \<Rightarrow> c
      | Some l \<Rightarrow> l)"

definition is_space :: "char \<Rightarrow> bool" where
  "is_space c = (of_char c \<in> {9, 10, 11, 12, 13, 32::nat})"

definition js_trim :: "string \<Rightarrow> string" where
  "js_trim s = rev (dropWhile is_space (rev (dropWhile is_space s)))"

fun lower_trim :: "jsval \<Rightarrow> string option" where
  "lower_trim (JStr s) = Some (js_trim (map lower_char s))"
| "lower_trim v = None"

text \<open>
  \<^verbatim>\<open>password.length < 6\<close> on a truthy password: a string and an array have a length,
  an object has one if it carries the key, a number and \<^verbatim>\<open>true\<close> have none
  (\<^verbatim>\<open>undefined < 6\<close> is false). A length property that is itself a string, an array or an
  object is not converted to a number here and counts as not smaller.
\<close>

fun js_length :: "jsval \<Rightarrow> jsval" where
  "js_length (JStr s) = JNum (int (length s))"
| "js_length (JArr xs) = JNum (int (length xs))"
| "js_length (JObj kvs) = fld kvs ''length''"
| "js_length v = JUndefined"

fun js_less_int :: "jsval \<Rightarrow> int \<Rightarrow> bool" where
  "js_less_int (JNum n) k = (n < k)"
| "js_less_int JNull k = (0 < k)"
| "js_less_int (JBool b) k = ((if b then 1 else 0) < k)"
| "js_less_int v k = False"

definition auth_body :: "bool \<Rightarrow> string \<Rightarrow> jsval" where
  "auth_body ok m = JObj [(''success'', JBool ok), (''message'', JStr m)]"

definition post_register :: "env \<Rightarrow> store \<Rightarrow> body \<Rightarrow> reply \<times> store" where
  "post_register e st b =
     (let name = fld b ''name''; email = fld b ''email''; password = fld b ''password'' in
      if \<not> truthy email \<or> \<not> truthy password
      then (Respond 400 (auth_body False ''Email and password are required.''), st)
      else if js_less_int (js_length password) 6
      then (Respond 400 (auth_body False ''Password must be at least 6 characters long.''), st)
      else
       let saltRounds = 10 in
       case bcrypt_hash e password saltRounds of
         None \<Rightarrow> (Respond 500 (auth_body False ''Server error during signup.''), st)
       | Some hashedPassword \<Rightarrow>
          (case lower_trim email of
             None \<Rightarrow> (Respond 500 (auth_body False ''Server error during signup.''), st)
           | Some em \<Rightarrow>
              (case db_run_insert e users_schema [''email'']
                      [(''email'', SText em), (''password'', SText hashedPassword)]
                      (users st) of
                 Inl UniqueViolation \<Rightarrow>
                   (Respond 400 (auth_body False ''User already exists.''), st)
               | Inl StorageFailure \<Rightarrow>
                   (Respond 500 (auth_body False ''Failed to create user.''), st)
               | Inr (lastID, t) \<Rightarrow>
                   (Respond 200 (JObj [(''success'', JBool True), (''id'', JNum lastID),
                      (''email'', JStr em),
                      (''message'', JStr ''Account created successfully!'')]),
                    st\<lparr>users := t\<rparr>))))"

definition post_signup :: "env \<Rightarrow> store \<Rightarrow> body \<Rightarrow> reply \<times> store" where
  "post_signup e st b =
     (let email = fld b ''email''; password = fld b ''password'' in
      if \<not> truthy email \<or> \<not> truthy password
      then (Respond 400 (auth_body False ''Email and password are required.''), st)
      else if js_less_int (js_length password) 6
      then (Respond 400 (auth_body False ''Password must be at least 6 characters long.''), st)
      else
       let saltRounds = 10 in
       case bcrypt_hash e password saltRounds of
         None \<Rightarrow> (Respond 500 (auth_body False ''Server error during signup.''), st)
       | Some hashedPassword \<Rightarrow>
          (case lower_trim email of
             None \<Rightarrow> (Respond 500 (auth_body False ''Server error during signup.''), st)
           | Some em \<Rightarrow>
              (case db_run_insert e users_schema [''email'']
                      [(''email'', SText em), (''password'', SText hashedPassword)]
                      (users st) of
                 Inl UniqueViolation \<Rightarrow>
                   (Respond 400 (auth_body False ''User already exists.''), st)
               | Inl StorageFailure \<Rightarrow>
                   (Respond 500 (auth_body False ''Failed to create user.''), st)
               | Inr (lastID, t) \<Rightarrow>
                   (Respond 200 (JObj [(''success'', JBool True), (''id'', JNum lastID),
                      (''email'', JStr em),
                      (''message'', JStr ''Account created successfully!'')]),
                    st\<lparr>users := t\<rparr>))))"


section \<open>Fixtures\<close>

definition empty_table :: table where
  "empty_table = \<lparr>rows = [], seq = 0\<rparr>"

definition empty_store :: store where
  "empty_store =
     \<lparr>users = empty_table, projects = empty_table, ideas = empty_table,
      notes = empty_table, career_goals = empty_table, future_work = empty_table,
      deadlines = empty_table, calendar_events = empty_table, profiles = empty_table\<rparr>"

text \<open>
  An environment for running a request at clock reading \<open>t\<close>: the engine reports no
  failure. Its library primitives are placeholders for runs that do not reach a hash or a
  parse; \<^verbatim>\<open>JSON.stringify\<close> is right on the empty list.
\<close>

definition quiet_env :: "string \<Rightarrow> env" where
  "quiet_env t =
     \<lparr>now = t, now_cb = t, get_err = False, run_err = False,
      bcrypt_hash = (\<lambda>v n. None), bcrypt_compare = (\<lambda>v h. None),
      json_stringify = (\<lambda>v. ''[]''), json_parse = (\<lambda>v. None)\<rparr>"

definition idea_body :: body where
  "idea_body = [(''title'', JStr ''x'')]"

definition two_ideas :: store where
  "two_ideas =
     snd (post_ideas (quiet_env ''2025-01-02'')
       (snd (post_ideas (quiet_env ''2025-01-01'') empty_store
               [(''user_email'', JStr ''a@x.com''), (''title'', JStr ''first'')]))
       [(''user_email'', JStr ''b@x.com''), (''title'', JStr ''second'')])"

definition one_project :: store where
  "one_project =
     snd (post_projects (quiet_env ''2025-01-01'') empty_store
       [(''name'', JStr ''Brochure''), (''owner_email'', JStr ''a@x.com''),
        (''progress'', JNum 40)])"

definition name_only :: body where
  "name_only = [(''name'', JStr ''Brochure'')]"

text \<open>
  A stand-in for bcrypt in example runs: it accepts strings only, as the library does, and
  a password matches the hash made from it.
\<close>

definition auth_env :: env where
  "auth_env =
     (quiet_env ''2025-01-01'')
       \<lparr>bcrypt_hash := (\<lambda>v n. case v of JStr s \<Rightarrow> Some (''hash:'' @ s) | _ \<Rightarrow> None),
        bcrypt_compare := (\<lambda>v h. case v of
            JStr s \<Rightarrow> (case h of JStr t \<Rightarrow> Some (t = ''hash:'' @ s) | _ \<Rightarrow> None)
          | _ \<Rightarrow> None)\<rparr>"

definition ann_body :: body where
  "ann_body = [(''email'', JStr '' Ann@X.com''), (''password'', JStr ''secret1'')]"







definition brochure :: body where
  "brochure = [(''name'', JStr ''Brochure''), (''owner_email'', JStr ''a@x.com'')]"

text \<open>A profile row whose \<^verbatim>\<open>degrees\<close> column holds text that is not JSON.\<close>

definition broken_profile :: store where
  "broken_profile =
     empty_store\<lparr>profiles :=
       \<lparr>rows = [new_row profiles_schema
          [(''user_email'', SText ''a@x.com''), (''degrees'', SText ''not json'')] 1],
        seq = 1\<rparr>\<rparr>"

section \<open>Reading replies and comparing tables\<close>

fun status_is :: "nat \<Rightarrow> reply \<Rightarrow> bool" where
  "status_is n (Respond m v) = (m = n)"
| "status_is n (Uncaught x) = False"

fun body_of :: "reply \<Rightarrow> jsval" where
  "body_of (Respond m v) = v"
| "body_of (Uncaught x) = JUndefined"

text \<open>
  A create that answered 200 with the generated identifier and appended one row, whose
  \<^verbatim>\<open>user_email\<close> is NULL.
\<close>

definition created_orphan :: "table \<Rightarrow> reply \<Rightarrow> table \<Rightarrow> bool" where
  "created_orphan t rep t' =
     (status_is 200 rep \<and> js_prop (body_of rep) ''id'' = JNum (next_id t) \<and>
      (\<exists>r. rows t' = rows t @ [r] \<and> col r ''id'' = SInt (next_id t) \<and>
           col r ''user_email'' = SNull))"

text \<open>
  Between \<open>t\<close> and \<open>t'\<close> every row keeps its place, its \<^verbatim>\<open>id\<close>,
  \<^verbatim>\<open>user_email\<close> and \<^verbatim>\<open>created_date\<close>, and a row whose id is not \<open>i\<close> is
  the same row.
\<close>

definition keeps_identity :: "int \<Rightarrow> table \<Rightarrow> table \<Rightarrow> bool" where
  "keeps_identity i t t' =
     (length (rows t') = length (rows t) \<and>
      (\<forall>k < length (rows t).
         col (rows t' ! k) ''id'' = col (rows t ! k) ''id'' \<and>
         col (rows t' ! k) ''user_email'' = col (rows t ! k) ''user_email'' \<and>
         col (rows t' ! k) ''created_date'' = col (rows t ! k) ''created_date'' \<and>
         (col (rows t ! k) ''id'' \<noteq> SInt i \<longrightarrow> rows t' ! k = rows t ! k)))"

text \<open>
  \<open>cfs\<close> pairs a column with the body field that feeds it. In the row with id \<open>i\<close>,
  each column whose field the body \<open>b\<close> does not carry is NULL in \<open>t'\<close>
  (\<open>nulls_absent\<close>), respectively 0 (\<open>zeros_absent\<close>, for a column the row has).
\<close>

definition nulls_absent :: "(string \<times> string) list \<Rightarrow> body \<Rightarrow> int \<Rightarrow> table \<Rightarrow> table \<Rightarrow> bool" where
  "nulls_absent cfs b i t t' =
     (\<forall>k < length (rows t). where_id i (rows t ! k) \<longrightarrow>
        (\<forall>(c, f) \<in> set cfs. fld b f = JUndefined \<longrightarrow> col (rows t' ! k) c = SNull))"

definition zeros_absent :: "(string \<times> string) list \<Rightarrow> body \<Rightarrow> int \<Rightarrow> table \<Rightarrow> table \<Rightarrow> bool" where
  "zeros_absent cfs b i t t' =
     (\<forall>k < length (rows t). where_id i (rows t ! k) \<longrightarrow>
        (\<forall>(c, f) \<in> set cfs. fld b f = JUndefined \<longrightarrow> map_of (rows t ! k) c \<noteq> None \<longrightarrow>
           col (rows t' ! k) c = SInt 0))"

text \<open>
  A table conforms to its schema when every row has exactly the declared columns after
  \<^verbatim>\<open>id\<close>, and \<^verbatim>\<open>id\<close> holds an integer.
\<close>

fun is_int :: "sqlval \<Rightarrow> bool" where
  "is_int (SInt n) = True"
| "is_int v = False"

definition conforms :: "schema \<Rightarrow> table \<Rightarrow> bool" where
  "conforms sch t =
     (\<forall>r \<in> set (rows t). map fst r = ''id'' # map fst sch \<and> is_int (col r ''id''))"

definition event_body :: body where
  "event_body =
     [(''userEmail'', JStr ''a@x.com''), (''title'', JStr ''Review''),
      (''date'', JStr ''2025-02-01''), (''isAllDay'', JBool True),
      (''isOnline'', JBool False), (''repeatWeekly'', JBool True)]"




text \<open>In the row with id \<open>i\<close>, a column \<open>c\<close> that the row has holds \<open>v\<close> in \<open>t'\<close>.\<close>

definition writes_col :: "string \<Rightarrow> sqlval \<Rightarrow> int \<Rightarrow> table \<Rightarrow> table \<Rightarrow> bool" where
  "writes_col c v i t t' =
     (\<forall>k < length (rows t). where_id i (rows t ! k) \<longrightarrow> map_of (rows t ! k) c \<noteq> None \<longrightarrow>
        col (rows t' ! k) c = v)"

definition profile_body :: body where
  "profile_body = [(''userEmail'', JStr ''a@x.com''), (''fullName'', JStr ''Ann'')]"

text \<open>The profile rows stored for the owner that the body names.\<close>

definition profile_rows :: "body \<Rightarrow> store \<Rightarrow> row list" where
  "profile_rows b st =
     sql_select (where_col ''user_email'' (bind (fld b ''userEmail''))) (profiles st)"

section \<open>The SET lists of the update handlers\<close>

text \<open>
  For each update by id, the columns of its \<^verbatim>\<open>SET\<close> list that receive a body field as
  it is, each with the name of that field. \<^verbatim>\<open>progress\<close> of
  \<^verbatim>\<open>PUT /projects/:id\<close> and the three flags and \<^verbatim>\<open>modified_date\<close> of
  \<^verbatim>\<open>PUT /events/:id\<close> are set from an expression and are listed apart.
\<close>

definition projects_set :: "(string \<times> string) list" where
  "projects_set =
     [(''name'', ''name''), (''colleagues'', ''colleagues'')]"

definition description_set :: "(string \<times> string) list" where
  "description_set =
     [(''project_title'', ''projectTitle''), (''notes'', ''notes''),
      (''colleague_name'', ''colleagueName''), (''colleague_phone'', ''colleaguePhone''),
      (''colleague_email'', ''colleagueEmail''),
      (''colleague_address1'', ''colleagueAddress1''),
      (''colleague_address2'', ''colleagueAddress2''),
      (''colleague_address3'', ''colleagueAddress3''), (''your_name'', ''yourName''),
      (''your_phone'', ''yourPhone''), (''your_email'', ''yourEmail''),
      (''your_address1'', ''yourAddress1''), (''your_address2'', ''yourAddress2''),
      (''your_address3'', ''yourAddress3''), (''objectives'', ''objectives''),
      (''timeline'', ''timeline''), (''primary_audience'', ''primaryAudience''),
      (''secondary_audience'', ''secondaryAudience''), (''call_action'', ''callAction''),
      (''competition'', ''competition''), (''graphics'', ''graphics''),
      (''photography'', ''photography''), (''multimedia'', ''multimedia''),
      (''other_info'', ''otherInfo''), (''client_name'', ''clientName''),
      (''client_comments'', ''clientComments''), (''approval_date'', ''approvalDate''),
      (''approval_signature'', ''approvalSignature'')]"

definition ideas_set :: "(string \<times> string) list" where
  "ideas_set =
     [(''title'', ''title''), (''content'', ''content''), (''category'', ''category'')]"

definition notes_set :: "(string \<times> string) list" where
  "notes_set =
     [(''title'', ''title''), (''content'', ''content'')]"

definition career_goals_set :: "(string \<times> string) list" where
  "career_goals_set =
     [(''title'', ''title''), (''description'', ''description''),
      (''progress'', ''progress''), (''goal_type'', ''goal_type''),
      (''target_date'', ''target_date''), (''total_stages'', ''total_stages''),
      (''current_stage'', ''current_stage''), (''start_date'', ''start_date''),
      (''stage_description'', ''stage_description'')]"

definition future_work_set :: "(string \<times> string) list" where
  "future_work_set =
     [(''title'', ''title''), (''description'', ''description''),
      (''priority'', ''priority''), (''timeline'', ''timeline'')]"

definition deadlines_set :: "(string \<times> string) list" where
  "deadlines_set =
     [(''title'', ''title''), (''description'', ''description''),
      (''due_date'', ''due_date''), (''priority'', ''priority''), (''status'', ''status'')]"

definition events_set :: "(string \<times> string) list" where
  "events_set =
     [(''title'', ''title''), (''description'', ''description''),
      (''event_date'', ''date''), (''start_time'', ''start''), (''end_time'', ''end''),
      (''location'', ''location''), (''category'', ''category''),
      (''attendees'', ''attendees''), (''reminder'', ''reminder''),
      (''recurrence'', ''recurrence''), (''recurrence_end'', ''recurrenceEnd''),
      (''show_as'', ''showAs''), (''priority'', ''priority''),
      (''meeting_link'', ''meetingLink''), (''attachments'', ''attachments'')]"

definition calendar_events_set :: "(string \<times> string) list" where
  "calendar_events_set =
     [(''title'', ''title''), (''description'', ''description''),
      (''event_date'', ''event_date''), (''start_time'', ''start_time''),
      (''end_time'', ''end_time''), (''repeat_weekly'', ''repeat_weekly'')]"

definition events_flags :: "(string \<times> string) list" where
  "events_flags =
     [(''is_all_day'', ''isAllDay''), (''is_online'', ''isOnline''),
      (''repeat_weekly'', ''repeatWeekly'')]"

text \<open>
  Between \<open>t\<close> and \<open>t'\<close> every row keeps its place and its value in each column outside
  \<open>cs\<close>, and a row whose id is not \<open>i\<close> is the same row.
\<close>

definition keeps_unset :: "string list \<Rightarrow> int \<Rightarrow> table \<Rightarrow> table \<Rightarrow> bool" where
  "keeps_unset cs i t t' =
     (length (rows t') = length (rows t) \<and>
      (\<forall>k < length (rows t).
         (\<forall>c. c \<notin> set cs \<longrightarrow> col (rows t' ! k) c = col (rows t ! k) c) \<and>
         (\<not> where_id i (rows t ! k) \<longrightarrow> rows t' ! k = rows t ! k)))"

section \<open>Stored flags and what is read back\<close>







section \<open>Properties\<close>

subsection \<open>Rows under an update\<close>

lemma map_of_set_cols:
  "map_of (set_cols asg r) c =
     (case map_of r c of None \<Rightarrow> None
      | Some v \<Rightarrow> Some (case map_of asg c of None \<Rightarrow> v | Some v' \<Rightarrow> v'))"
  by (induction r) (auto simp: set_cols_def split: option.splits)

lemma col_set_cols_other: "map_of asg c = None \<Longrightarrow> col (set_cols asg r) c = col r c"
  by (simp add: col_def map_of_set_cols split: option.splits)

lemma col_set_cols_null: "map_of asg c = Some SNull \<Longrightarrow> col (set_cols asg r) c = SNull"
  by (simp add: col_def map_of_set_cols split: option.splits)

lemma col_set_cols_hit:
  "map_of asg c = Some v \<Longrightarrow> map_of r c \<noteq> None \<Longrightarrow> col (set_cols asg r) c = v"
  by (auto simp add: col_def map_of_set_cols split: option.splits)

lemma sql_update_keeps_identity:
  assumes "map_of asg ''id'' = None" "map_of asg ''user_email'' = None"
    "map_of asg ''created_date'' = None"
  shows "keeps_identity i t (snd (sql_update asg (where_id i) t))"
  using assms
  by (auto simp: keeps_identity_def sql_update_def where_id_def sql_eq_def col_set_cols_other)

lemma keeps_identity_refl: "keeps_identity i t t"
  by (simp add: keeps_identity_def)

lemma sql_update_nulls:
  assumes "\<forall>(c, f) \<in> set cfs. map_of asg c = Some (bind (fld b f))"
  shows "nulls_absent cfs b i t (snd (sql_update asg (where_id i) t))"
  unfolding nulls_absent_def sql_update_def
proof (intro allI impI ballI, clarify)
  fix k c f
  assume k: "k < length (rows t)" and w: "where_id i (rows t ! k)"
    and cf: "(c, f) \<in> set cfs" and u: "fld b f = JUndefined"
  from assms cf u have "map_of asg c = Some SNull" by fastforce
  then show "col (rows (snd (int (length (filter (where_id i) (rows t))),
        t\<lparr>rows := map (\<lambda>r. if where_id i r then set_cols asg r else r) (rows t)\<rparr>)) ! k) c = SNull"
    using k w by (simp add: col_set_cols_null)
qed

lemma sql_update_zeros:
  assumes "\<forall>(c, f) \<in> set cfs. fld b f = JUndefined \<longrightarrow> map_of asg c = Some (SInt 0)"
  shows "zeros_absent cfs b i t (snd (sql_update asg (where_id i) t))"
  unfolding zeros_absent_def sql_update_def
proof (intro allI impI ballI, clarify)
  fix k c f y
  assume k: "k < length (rows t)" and w: "where_id i (rows t ! k)"
    and cf: "(c, f) \<in> set cfs" and u: "fld b f = JUndefined"
    and h: "map_of (rows t ! k) c = Some y"
  from assms cf u have "map_of asg c = Some (SInt 0)" by fastforce
  then show "col (rows (snd (int (length (filter (where_id i) (rows t))),
        t\<lparr>rows := map (\<lambda>r. if where_id i r then set_cols asg r else r) (rows t)\<rparr>)) ! k) c = SInt 0"
    using k w h by (simp add: col_set_cols_hit)
qed

subsection \<open>Create without an owner\<close>

text \<open>
  C1, as the specification states it: a create of an idea, note, career goal, future work item
  or deadline whose input omits \<^verbatim>\<open>user_email\<close> fails with status 400 and inserts no
  row. The handlers do not check any field. \<^verbatim>\<open>POST /ideas\<close> with only a title, on an
  empty store, answers 200 with id 1 and stores a row whose \<^verbatim>\<open>user_email\<close> is NULL.
\<close>

theorem create_without_user_email_counterexample:
  "fst (post_ideas (quiet_env ''2025-01-01T00:00:00.000Z'') empty_store idea_body) =
     Respond 200 (JObj [(''id'', JNum 1), (''user_email'', JUndefined), (''title'', JStr ''x''),
        (''content'', JUndefined), (''category'', JUndefined),
        (''created_date'', JStr ''2025-01-01T00:00:00.000Z'')])
   \<and> rows (ideas (snd (post_ideas (quiet_env ''2025-01-01T00:00:00.000Z'') empty_store
        idea_body))) =
     [ [(''id'', SInt 1), (''user_email'', SNull), (''title'', SText ''x''), (''content'', SNull),
       (''category'', SText ''general''), (''created_date'', SText ''2025-01-01T00:00:00.000Z'')] ]"
  by (simp add: post_ideas_def quiet_env_def empty_store_def empty_table_def db_run_insert_def
      sql_insert_def next_id_def new_row_def violates_def ideas_schema_def fld_def js_or_def
      idea_body_def)

text \<open>
  C1, amended: for each of the five resources, a create whose input omits
  \<^verbatim>\<open>user_email\<close> is not rejected. When the engine reports no failure it answers 200
  with the generated identifier and appends exactly one row, whose \<^verbatim>\<open>user_email\<close>
  is NULL.
\<close>

theorem create_without_user_email_inserts:
  assumes "\<not> run_err e" and "fld b ''user_email'' = JUndefined"
  shows "created_orphan (ideas st) (fst (post_ideas e st b)) (ideas (snd (post_ideas e st b))) \<and>
    created_orphan (notes st) (fst (post_notes e st b)) (notes (snd (post_notes e st b))) \<and>
    created_orphan (career_goals st) (fst (post_career_goals e st b))
      (career_goals (snd (post_career_goals e st b))) \<and>
    created_orphan (future_work st) (fst (post_future_work e st b))
      (future_work (snd (post_future_work e st b))) \<and>
    created_orphan (deadlines st) (fst (post_deadlines e st b))
      (deadlines (snd (post_deadlines e st b)))"
  using assms
  by (simp add: created_orphan_def post_ideas_def post_notes_def post_career_goals_def
      post_future_work_def post_deadlines_def db_run_insert_def sql_insert_def violates_def
      Let_def new_row_def col_def fld_def ideas_schema_def notes_schema_def
      career_goals_schema_def future_work_schema_def deadlines_schema_def)

theorem create_without_user_email_inserts_witness:
  "\<not> run_err (quiet_env ''2025-01-01'') \<and> fld idea_body ''user_email'' = JUndefined \<and>
   created_orphan (ideas empty_store)
     (fst (post_ideas (quiet_env ''2025-01-01'') empty_store idea_body))
     (ideas (snd (post_ideas (quiet_env ''2025-01-01'') empty_store idea_body))) \<and>
   created_orphan (deadlines empty_store)
     (fst (post_deadlines (quiet_env ''2025-01-01'') empty_store idea_body))
     (deadlines (snd (post_deadlines (quiet_env ''2025-01-01'') empty_store idea_body)))"
proof -
  have h1: "\<not> run_err (quiet_env ''2025-01-01'')"
    by (simp add: quiet_env_def)
  have h2: "fld idea_body ''user_email'' = JUndefined"
    by (simp add: idea_body_def fld_def)
  from create_without_user_email_inserts [OF h1 h2, of empty_store] h1 h2
  show ?thesis by simp
qed

subsection \<open>What an update leaves alone\<close>

text \<open>
  C10: an update by id of an idea, note, deadline, career goal or future work item leaves
  \<^verbatim>\<open>id\<close>, \<^verbatim>\<open>user_email\<close> and \<^verbatim>\<open>created_date\<close> of every row as they
  were, and leaves every row with another id entirely unchanged.
\<close>

theorem update_keeps_identity:
  "keeps_identity i (ideas st) (ideas (snd (put_ideas e st i b))) \<and>
   keeps_identity i (notes st) (notes (snd (put_notes e st i b))) \<and>
   keeps_identity i (deadlines st) (deadlines (snd (put_deadlines e st i b))) \<and>
   keeps_identity i (career_goals st) (career_goals (snd (put_career_goals e st i b))) \<and>
   keeps_identity i (future_work st) (future_work (snd (put_future_work e st i b)))"
  by (simp add: put_ideas_def put_notes_def put_deadlines_def put_career_goals_def
      put_future_work_def db_run_update_def keeps_identity_refl sql_update_keeps_identity
      case_prod_beta)

lemma two_ideas_rows:
  "rows (ideas two_ideas) =
     [ [(''id'', SInt 1), (''user_email'', SText ''a@x.com''), (''title'', SText ''first''),
       (''content'', SNull), (''category'', SText ''general''),
       (''created_date'', SText ''2025-01-01'')],
      [(''id'', SInt 2), (''user_email'', SText ''b@x.com''), (''title'', SText ''second''),
       (''content'', SNull), (''category'', SText ''general''),
       (''created_date'', SText ''2025-01-02'')] ]"
  by (simp add: two_ideas_def post_ideas_def quiet_env_def empty_store_def empty_table_def
      db_run_insert_def sql_insert_def next_id_def new_row_def violates_def ideas_schema_def
      fld_def js_or_def col_def row_id_def)

theorem update_keeps_identity_witness:
  "(1::nat) < length (rows (ideas two_ideas)) \<and>
   col (rows (ideas two_ideas) ! 1) ''id'' \<noteq> SInt 1 \<and>
   rows (ideas (snd (put_ideas (quiet_env ''2025-01-03'') two_ideas 1 idea_body))) ! 1 =
     rows (ideas two_ideas) ! 1 \<and>
   col (rows (ideas (snd (put_ideas (quiet_env ''2025-01-03'') two_ideas 1 idea_body))) ! 0)
     ''user_email'' = SText ''a@x.com''"
proof -
  let ?t' = "ideas (snd (put_ideas (quiet_env ''2025-01-03'') two_ideas 1 idea_body))"
  have k: "keeps_identity 1 (ideas two_ideas) ?t'"
    using update_keeps_identity [of 1 two_ideas "quiet_env ''2025-01-03''" idea_body] by simp
  have a: "(1::nat) < length (rows (ideas two_ideas))"
    by (simp add: two_ideas_rows)
  have b: "col (rows (ideas two_ideas) ! 1) ''id'' \<noteq> SInt 1"
    by (simp add: two_ideas_rows col_def)
  from k a b have c: "rows ?t' ! 1 = rows (ideas two_ideas) ! 1"
    unfolding keeps_identity_def by blast
  have "(0::nat) < length (rows (ideas two_ideas))"
    by (simp add: two_ideas_rows)
  with k have "col (rows ?t' ! 0) ''user_email'' = col (rows (ideas two_ideas) ! 0) ''user_email''"
    unfolding keeps_identity_def by blast
  then have d: "col (rows ?t' ! 0) ''user_email'' = SText ''a@x.com''"
    by (simp add: two_ideas_rows col_def)
  from a b c d show ?thesis by blast
qed

subsection \<open>What an update writes for a field the body does not carry\<close>

lemma sql_update_writes_col:
  assumes "map_of asg c = Some v"
  shows "writes_col c v i t (snd (sql_update asg (where_id i) t))"
  using assms by (auto simp: writes_col_def sql_update_def col_set_cols_hit)

lemma keeps_unset_refl: "keeps_unset cs i t t"
  by (simp add: keeps_unset_def)

lemma sql_update_keeps_unset:
  assumes "fst ` set asg \<subseteq> set cs"
  shows "keeps_unset cs i t (snd (sql_update asg (where_id i) t))"
proof -
  have "map_of asg c = None" if "c \<notin> set cs" for c
    using that assms by (auto simp: map_of_eq_None_iff)
  then show ?thesis
    by (auto simp: keeps_unset_def sql_update_def col_set_cols_other)
qed

lemma put_projects_nulls:
  "\<not> run_err e \<Longrightarrow>
     nulls_absent projects_set b i (projects st) (projects (snd (put_projects e st i b)))"
  by (simp add: put_projects_def db_run_update_def case_prod_beta Let_def split del: if_split)
     (rule sql_update_nulls, simp add: projects_set_def)

lemma put_projects_keeps:
  "keeps_unset (''progress'' # map fst projects_set) i (projects st) (projects (snd (put_projects e st i b)))"
proof (cases "run_err e")
  case True
  then show ?thesis
    by (simp add: put_projects_def db_run_update_def Let_def keeps_unset_refl)
next
  case False
  then show ?thesis
    by (simp add: put_projects_def db_run_update_def case_prod_beta Let_def split del: if_split)
       (rule sql_update_keeps_unset, simp add: projects_set_def)
qed

lemma put_projects_description_nulls:
  "\<not> run_err e \<Longrightarrow>
     nulls_absent description_set b i (projects st) (projects (snd (put_projects_description e st i b)))"
  by (simp add: put_projects_description_def db_run_update_def case_prod_beta )
     (rule sql_update_nulls, simp add: description_set_def)

lemma put_projects_description_keeps:
  "keeps_unset (map fst description_set) i (projects st) (projects (snd (put_projects_description e st i b)))"
proof (cases "run_err e")
  case True
  then show ?thesis
    by (simp add: put_projects_description_def db_run_update_def Let_def keeps_unset_refl)
next
  case False
  then show ?thesis
    by (simp add: put_projects_description_def db_run_update_def case_prod_beta Let_def split del: if_split)
       (rule sql_update_keeps_unset, simp add: description_set_def)
qed

lemma put_ideas_nulls:
  "\<not> run_err e \<Longrightarrow>
     nulls_absent ideas_set b i (ideas st) (ideas (snd (put_ideas e st i b)))"
  by (simp add: put_ideas_def db_run_update_def case_prod_beta Let_def)
     (rule sql_update_nulls, simp add: ideas_set_def)

lemma put_ideas_keeps:
  "keeps_unset (map fst ideas_set) i (ideas st) (ideas (snd (put_ideas e st i b)))"
proof (cases "run_err e")
  case True
  then show ?thesis
    by (simp add: put_ideas_def db_run_update_def Let_def keeps_unset_refl)
next
  case False
  then show ?thesis
    by (simp add: put_ideas_def db_run_update_def case_prod_beta Let_def split del: if_split)
       (rule sql_update_keeps_unset, simp add: ideas_set_def)
qed

lemma put_notes_nulls:
  "\<not> run_err e \<Longrightarrow>
     nulls_absent notes_set b i (notes st) (notes (snd (put_notes e st i b)))"
  by (simp add: put_notes_def db_run_update_def case_prod_beta Let_def)
     (rule sql_update_nulls, simp add: notes_set_def)

lemma put_notes_keeps:
  "keeps_unset (map fst notes_set) i (notes st) (notes (snd (put_notes e st i b)))"
proof (cases "run_err e")
  case True
  then show ?thesis
    by (simp add: put_notes_def db_run_update_def Let_def keeps_unset_refl)
next
  case False
  then show ?thesis
    by (simp add: put_notes_def db_run_update_def case_prod_beta Let_def split del: if_split)
       (rule sql_update_keeps_unset, simp add: notes_set_def)
qed

lemma put_career_goals_nulls:
  "\<not> run_err e \<Longrightarrow>
     nulls_absent career_goals_set b i (career_goals st) (career_goals (snd (put_career_goals e st i b)))"
  by (simp add: put_career_goals_def db_run_update_def case_prod_beta Let_def)
     (rule sql_update_nulls, simp add: career_goals_set_def)

lemma put_career_goals_keeps:
  "keeps_unset (map fst career_goals_set) i (career_goals st) (career_goals (snd (put_career_goals e st i b)))"
proof (cases "run_err e")
  case True
  then show ?thesis
    by (simp add: put_career_goals_def db_run_update_def Let_def keeps_unset_refl)
next
  case False
  then show ?thesis
    by (simp add: put_career_goals_def db_run_update_def case_prod_beta Let_def split del: if_split)
       (rule sql_update_keeps_unset, simp add: career_goals_set_def)
qed

lemma put_future_work_nulls:
  "\<not> run_err e \<Longrightarrow>
     nulls_absent future_work_set b i (future_work st) (future_work (snd (put_future_work e st i b)))"
  by (simp add: put_future_work_def db_run_update_def case_prod_beta Let_def)
     (rule sql_update_nulls, simp add: future_work_set_def)

lemma put_future_work_keeps:
  "keeps_unset (map fst future_work_set) i (future_work st) (future_work (snd (put_future_work e st i b)))"
proof (cases "run_err e")
  case True
  then show ?thesis
    by (simp add: put_future_work_def db_run_update_def Let_def keeps_unset_refl)
next
  case False
  then show ?thesis
    by (simp add: put_future_work_def db_run_update_def case_prod_beta Let_def split del: if_split)
       (rule sql_update_keeps_unset, simp add: future_work_set_def)
qed

lemma put_deadlines_nulls:
  "\<not> run_err e \<Longrightarrow>
     nulls_absent deadlines_set b i (deadlines st) (deadlines (snd (put_deadlines e st i b)))"
  by (simp add: put_deadlines_def db_run_update_def case_prod_beta Let_def)
     (rule sql_update_nulls, simp add: deadlines_set_def)

lemma put_deadlines_keeps:
  "keeps_unset (map fst deadlines_set) i (deadlines st) (deadlines (snd (put_deadlines e st i b)))"
proof (cases "run_err e")
  case True
  then show ?thesis
    by (simp add: put_deadlines_def db_run_update_def Let_def keeps_unset_refl)
next
  case False
  then show ?thesis
    by (simp add: put_deadlines_def db_run_update_def case_prod_beta Let_def split del: if_split)
       (rule sql_update_keeps_unset, simp add: deadlines_set_def)
qed

lemma put_events_nulls:
  "\<not> run_err e \<Longrightarrow>
     nulls_absent events_set b i (calendar_events st) (calendar_events (snd (put_events e st i b)))"
  by (simp add: put_events_def db_run_update_def case_prod_beta Let_def)
     (rule sql_update_nulls, simp add: events_set_def)

lemma put_events_keeps:
  "keeps_unset (''modified_date'' # map fst events_flags @ map fst events_set) i (calendar_events st) (calendar_events (snd (put_events e st i b)))"
proof (cases "run_err e")
  case True
  then show ?thesis
    by (simp add: put_events_def db_run_update_def Let_def keeps_unset_refl)
next
  case False
  then show ?thesis
    by (simp add: put_events_def db_run_update_def case_prod_beta Let_def split del: if_split)
       (rule sql_update_keeps_unset, simp add: events_set_def events_flags_def)
qed

lemma put_calendar_events_nulls:
  "\<not> run_err e \<Longrightarrow>
     nulls_absent calendar_events_set b i (calendar_events st) (calendar_events (snd (put_calendar_events e st i b)))"
  by (simp add: put_calendar_events_def db_run_update_def case_prod_beta Let_def)
     (rule sql_update_nulls, simp add: calendar_events_set_def)

lemma put_calendar_events_keeps:
  "keeps_unset (map fst calendar_events_set) i (calendar_events st) (calendar_events (snd (put_calendar_events e st i b)))"
proof (cases "run_err e")
  case True
  then show ?thesis
    by (simp add: put_calendar_events_def db_run_update_def Let_def keeps_unset_refl)
next
  case False
  then show ?thesis
    by (simp add: put_calendar_events_def db_run_update_def case_prod_beta Let_def split del: if_split)
       (rule sql_update_keeps_unset, simp add: calendar_events_set_def)
qed

lemma put_events_zeros:
  "\<not> run_err e \<Longrightarrow>
     zeros_absent events_flags b i (calendar_events st)
       (calendar_events (snd (put_events e st i b)))"
  by (simp add: put_events_def db_run_update_def case_prod_beta Let_def)
     (rule sql_update_zeros, simp add: flag_def events_flags_def)

lemma put_events_modified:
  "\<not> run_err e \<Longrightarrow>
     writes_col ''modified_date'' (SText (now e)) i (calendar_events st)
       (calendar_events (snd (put_events e st i b)))"
  by (simp add: put_events_def db_run_update_def case_prod_beta Let_def)
     (rule sql_update_writes_col, simp)

lemma put_projects_zeros:
  "\<not> run_err e \<Longrightarrow> zeros_absent [(''progress'', ''progress'')]
      b i (projects st) (projects (snd (put_projects e st i b)))"
  by (simp add: put_projects_def db_run_update_def case_prod_beta Let_def split del: if_split)
     (rule sql_update_zeros, simp)

lemma one_project_rows:
  "rows (projects one_project) =
     [(''id'', SInt 1) # (''name'', SText ''Brochure'') # (''owner_email'', SText ''a@x.com'') #
      (''colleagues'', SText ''[]'') # (''progress'', SInt 40) # drop 4 projects_schema]"
  by (simp add: one_project_def post_projects_def quiet_env_def empty_store_def empty_table_def
      db_run_insert_def sql_insert_def next_id_def new_row_def violates_def projects_schema_def
      fld_def js_or_def)

text \<open>
  C9, as the specification states it: every mutable field absent from the input of an update
  by id is written as NULL; in particular \<^verbatim>\<open>PUT /projects/:id\<close> with
  \<^verbatim>\<open>progress\<close> omitted writes NULL. The handler writes
  \<^verbatim>\<open>progress !== undefined ? progress : 0\<close>: on a project stored with progress 40,
  an update that carries only the name leaves progress 0.
\<close>

theorem update_absent_progress_counterexample:
  "where_id 1 (rows (projects one_project) ! 0) \<and>
   col (rows (projects one_project) ! 0) ''progress'' = SInt 40 \<and>
   fld name_only ''progress'' = JUndefined \<and>
   col (rows (projects (snd (put_projects (quiet_env ''2025-01-02'') one_project 1 name_only)))
          ! 0) ''progress'' = SInt 0"
  by (simp add: one_project_rows put_projects_def db_run_update_def sql_update_def
      quiet_env_def where_id_def sql_eq_def col_def set_cols_def fld_def name_only_def
      projects_schema_def)

text \<open>
  C9, amended: when the engine reports no failure, an update by id overwrites, in the row
  with that id, the columns of the handler's own \<^verbatim>\<open>SET\<close> list: a column whose body
  field is absent is written NULL and not left unchanged, except that
  \<^verbatim>\<open>PUT /projects/:id\<close> writes 0 for an absent \<^verbatim>\<open>progress\<close> and
  \<^verbatim>\<open>PUT /events/:id\<close> writes 0 for an absent \<^verbatim>\<open>isAllDay\<close>, \<^verbatim>\<open>isOnline\<close> or
  \<^verbatim>\<open>repeatWeekly\<close> and the request time for \<^verbatim>\<open>modified_date\<close>. Every column
  outside the handler's \<^verbatim>\<open>SET\<close> list keeps its value, and so does every row with another
  id: \<^verbatim>\<open>PUT /projects/:id\<close> leaves the description columns,
  \<^verbatim>\<open>PUT /projects/:id/description\<close> leaves name, colleagues and progress, and the legacy
  \<^verbatim>\<open>PUT /calendar_events/:id\<close> leaves the columns it does not name.
\<close>

theorem update_writes_null_for_absent:
  assumes "\<not> run_err e"
  shows "nulls_absent projects_set b i (projects st) (projects (snd (put_projects e st i b))) \<and>
    zeros_absent [(''progress'', ''progress'')] b i (projects st)
      (projects (snd (put_projects e st i b))) \<and>
    keeps_unset (''progress'' # map fst projects_set) i (projects st)
      (projects (snd (put_projects e st i b))) \<and>
    nulls_absent description_set b i (projects st)
      (projects (snd (put_projects_description e st i b))) \<and>
    keeps_unset (map fst description_set) i (projects st)
      (projects (snd (put_projects_description e st i b))) \<and>
    nulls_absent ideas_set b i (ideas st) (ideas (snd (put_ideas e st i b))) \<and>
    keeps_unset (map fst ideas_set) i (ideas st) (ideas (snd (put_ideas e st i b))) \<and>
    nulls_absent notes_set b i (notes st) (notes (snd (put_notes e st i b))) \<and>
    keeps_unset (map fst notes_set) i (notes st) (notes (snd (put_notes e st i b))) \<and>
    nulls_absent career_goals_set b i (career_goals st)
      (career_goals (snd (put_career_goals e st i b))) \<and>
    keeps_unset (map fst career_goals_set) i (career_goals st)
      (career_goals (snd (put_career_goals e st i b))) \<and>
    nulls_absent future_work_set b i (future_work st)
      (future_work (snd (put_future_work e st i b))) \<and>
    keeps_unset (map fst future_work_set) i (future_work st)
      (future_work (snd (put_future_work e st i b))) \<and>
    nulls_absent deadlines_set b i (deadlines st) (deadlines (snd (put_deadlines e st i b))) \<and>
    keeps_unset (map fst deadlines_set) i (deadlines st)
      (deadlines (snd (put_deadlines e st i b))) \<and>
    nulls_absent events_set b i (calendar_events st)
      (calendar_events (snd (put_events e st i b))) \<and>
    zeros_absent events_flags b i (calendar_events st)
      (calendar_events (snd (put_events e st i b))) \<and>
    writes_col ''modified_date'' (SText (now e)) i (calendar_events st)
      (calendar_events (snd (put_events e st i b))) \<and>
    keeps_unset (''modified_date'' # map fst events_flags @ map fst events_set) i
      (calendar_events st) (calendar_events (snd (put_events e st i b))) \<and>
    nulls_absent calendar_events_set b i (calendar_events st)
      (calendar_events (snd (put_calendar_events e st i b))) \<and>
    keeps_unset (map fst calendar_events_set) i (calendar_events st)
      (calendar_events (snd (put_calendar_events e st i b)))"
  using assms
  by (intro conjI put_projects_nulls put_projects_zeros put_projects_keeps
      put_projects_description_nulls put_projects_description_keeps
      put_ideas_nulls put_ideas_keeps put_notes_nulls put_notes_keeps
      put_career_goals_nulls put_career_goals_keeps put_future_work_nulls
      put_future_work_keeps put_deadlines_nulls put_deadlines_keeps
      put_events_nulls put_events_zeros put_events_modified put_events_keeps
      put_calendar_events_nulls put_calendar_events_keeps)

theorem update_writes_null_for_absent_witness:
  "\<not> run_err (quiet_env ''2025-01-02'') \<and>
   (0::nat) < length (rows (projects one_project)) \<and>
   where_id 1 (rows (projects one_project) ! 0) \<and>
   fld name_only ''colleagues'' = JUndefined \<and>
   (''colleagues'', ''colleagues'') \<in> set projects_set \<and>
   ''owner_email'' \<notin> set (''progress'' # map fst projects_set) \<and>
   col (rows (projects one_project) ! 0) ''colleagues'' = SText ''[]'' \<and>
   col (rows (projects (snd (put_projects (quiet_env ''2025-01-02'') one_project 1 name_only)))
          ! 0) ''colleagues'' = SNull \<and>
   col (rows (projects (snd (put_projects (quiet_env ''2025-01-02'') one_project 1 name_only)))
          ! 0) ''owner_email'' = SText ''a@x.com''"
proof -
  let ?e = "quiet_env ''2025-01-02''"
  let ?t' = "projects (snd (put_projects ?e one_project 1 name_only))"
  have h: "\<not> run_err ?e"
    by (simp add: quiet_env_def)
  note all = update_writes_null_for_absent [OF h, of name_only 1 one_project]
  from all have n: "nulls_absent projects_set name_only 1 (projects one_project) ?t'"
    by simp
  from all have k: "keeps_unset (''progress'' # map fst projects_set) 1 (projects one_project) ?t'"
    by simp
  have a: "(0::nat) < length (rows (projects one_project))"
    by (simp add: one_project_rows)
  have w: "where_id 1 (rows (projects one_project) ! 0)"
    by (simp add: one_project_rows where_id_def sql_eq_def col_def)
  have u: "fld name_only ''colleagues'' = JUndefined"
    by (simp add: name_only_def fld_def)
  have m: "(''colleagues'', ''colleagues'') \<in> set projects_set"
    by (simp add: projects_set_def)
  have o: "''owner_email'' \<notin> set (''progress'' # map fst projects_set)"
    by (simp add: projects_set_def)
  have c0: "col (rows (projects one_project) ! 0) ''colleagues'' = SText ''[]''"
    and o0: "col (rows (projects one_project) ! 0) ''owner_email'' = SText ''a@x.com''"
    by (simp_all add: one_project_rows col_def)
  from n a w have "\<forall>(c, f) \<in> set projects_set. fld name_only f = JUndefined \<longrightarrow>
      col (rows ?t' ! 0) c = SNull"
    unfolding nulls_absent_def by simp
  with m u have c1: "col (rows ?t' ! 0) ''colleagues'' = SNull"
    by auto
  from k a have "\<forall>c. c \<notin> set (''progress'' # map fst projects_set) \<longrightarrow>
      col (rows ?t' ! 0) c = col (rows (projects one_project) ! 0) c"
    unfolding keeps_unset_def by simp
  with o o0 have o1: "col (rows ?t' ! 0) ''owner_email'' = SText ''a@x.com''"
    by simp
  from h a w u m o c0 c1 o1 show ?thesis by simp
qed

subsection \<open>Register and signup\<close>

text \<open>
  C8: for every request body, every store and every environment (hash primitive, engine
  failure), \<^verbatim>\<open>POST /register\<close> and \<^verbatim>\<open>POST /signup\<close> give the same response and
  leave the same store. Both definitions are translated from their own handler.
\<close>

theorem register_signup_same: "post_register e st b = post_signup e st b"
  by (simp add: post_register_def post_signup_def)

theorem register_signup_same_witness:
  "truthy (fld ann_body ''email'') \<and> truthy (fld ann_body ''password'') \<and>
   \<not> js_less_int (js_length (fld ann_body ''password'')) 6 \<and>
   \<not> run_err auth_env \<and>
   post_register auth_env empty_store ann_body = post_signup auth_env empty_store ann_body \<and>
   fst (post_signup auth_env empty_store ann_body) =
     Respond 200 (JObj [(''success'', JBool True), (''id'', JNum 1),
       (''email'', JStr ''ann@x.com''), (''message'', JStr ''Account created successfully!'')])"
proof -
  have r: "fst (post_register auth_env empty_store ann_body) =
     Respond 200 (JObj [(''success'', JBool True), (''id'', JNum 1),
       (''email'', JStr ''ann@x.com''), (''message'', JStr ''Account created successfully!'')])"
    by (simp add: post_register_def auth_env_def quiet_env_def empty_store_def
        empty_table_def db_run_insert_def sql_insert_def next_id_def new_row_def violates_def
        users_schema_def fld_def js_trim_def lower_char_def is_space_def ann_body_def)
  have h: "truthy (fld ann_body ''email'')" "truthy (fld ann_body ''password'')"
    "\<not> js_less_int (js_length (fld ann_body ''password'')) 6" "\<not> run_err auth_env"
    by (simp_all add: ann_body_def fld_def auth_env_def quiet_env_def)
  from register_signup_same [of auth_env empty_store ann_body] r h
  show ?thesis by simp
qed

subsection \<open>Login\<close>





subsection \<open>The response of a project create\<close>

text \<open>
  C2: a project create with only \<^verbatim>\<open>name\<close> and \<^verbatim>\<open>owner_email\<close> should answer
  with the post-default record, \<^verbatim>\<open>colleagues\<close> being the text \<^verbatim>\<open>[]\<close> and progress 0.
  The handler puts \<^verbatim>\<open>progress || 0\<close> into the response but the raw
  \<^verbatim>\<open>colleagues\<close>: the response carries no \<^verbatim>\<open>colleagues\<close>, while the stored row
  has \<^verbatim>\<open>[]\<close>.
\<close>

theorem create_project_echoes_raw_colleagues:
  "fst (post_projects (quiet_env ''2025-01-01'') empty_store brochure) =
     Respond 200 (JObj [(''id'', JNum 1), (''name'', JStr ''Brochure''),
       (''owner_email'', JStr ''a@x.com''), (''colleagues'', JUndefined), (''progress'', JNum 0)])
   \<and> col (rows (projects (snd (post_projects (quiet_env ''2025-01-01'') empty_store brochure)))
           ! 0) ''colleagues'' = SText ''[]''
   \<and> col (rows (projects (snd (post_projects (quiet_env ''2025-01-01'') empty_store brochure)))
           ! 0) ''progress'' = SInt 0"
  by (simp add: post_projects_def quiet_env_def empty_store_def empty_table_def
      db_run_insert_def sql_insert_def next_id_def new_row_def violates_def projects_schema_def
      fld_def js_or_def brochure_def col_def)

theorem create_project_echoes_raw_colleagues_witness:
  "truthy (fld brochure ''name'') \<and> truthy (fld brochure ''owner_email'') \<and>
   \<not> run_err (quiet_env ''2025-01-01'') \<and>
   js_prop (body_of (fst (post_projects (quiet_env ''2025-01-01'') empty_store brochure)))
     ''colleagues'' = JUndefined \<and>
   js_prop (body_of (fst (post_projects (quiet_env ''2025-01-01'') empty_store brochure)))
     ''progress'' = JNum 0"
  using create_project_echoes_raw_colleagues
  by (simp add: brochure_def fld_def quiet_env_def)

subsection \<open>Reading a profile\<close>

text \<open>
  C6: when the profile row found for the email holds, in one of its five list columns, a
  non-empty text on which \<^verbatim>\<open>JSON.parse\<close> throws, \<^verbatim>\<open>GET /profile/:email\<close> ends
  with that exception and sends no response.
\<close>

theorem profile_read_unguarded:
  assumes "\<not> get_err e"
    and "sql_select (where_col ''user_email'' (SText m)) (profiles st) = r # rs"
    and "c \<in> {''degrees'', ''employment'', ''courses'', ''grants'', ''awards''}"
    and "col r c = SText t" and "t \<noteq> []" and "json_parse e (JStr t) = None"
  shows "get_profile e st m = Uncaught ''SyntaxError''"
proof -
  have p: "parse_list e (row_prop r c) = None"
    using assms(4-6) by (auto simp: parse_list_def row_prop_def col_def split: option.splits)
  show ?thesis
    using assms(1-3) p
    by (auto simp: get_profile_def db_get_def split: option.splits)
qed

theorem profile_read_unguarded_witness:
  "\<not> get_err (quiet_env ''2025-01-01'') \<and>
   sql_select (where_col ''user_email'' (SText ''a@x.com'')) (profiles broken_profile) =
     rows (profiles broken_profile) \<and>
   col (hd (rows (profiles broken_profile))) ''degrees'' = SText ''not json'' \<and>
   json_parse (quiet_env ''2025-01-01'') (JStr ''not json'') = None \<and>
   get_profile (quiet_env ''2025-01-01'') broken_profile ''a@x.com'' = Uncaught ''SyntaxError''"
proof -
  let ?e = "quiet_env ''2025-01-01''"
  let ?r = "new_row profiles_schema
          [(''user_email'', SText ''a@x.com''), (''degrees'', SText ''not json'')] 1"
  have rs: "rows (profiles broken_profile) = [?r]"
    by (simp add: broken_profile_def)
  have g: "\<not> get_err ?e" and j: "json_parse ?e (JStr ''not json'') = None"
    by (simp_all add: quiet_env_def)
  have s: "sql_select (where_col ''user_email'' (SText ''a@x.com'')) (profiles broken_profile) = ?r # []"
    by (simp add: rs sql_select_def where_col_def sql_eq_def col_def new_row_def profiles_schema_def)
  have d: "col ?r ''degrees'' = SText ''not json''"
    by (simp add: col_def new_row_def profiles_schema_def)
  have "get_profile ?e broken_profile ''a@x.com'' = Uncaught ''SyntaxError''"
    by (rule profile_read_unguarded [OF g s _ d _ j]) simp_all
  with g s d j rs show ?thesis by simp
qed

subsection \<open>Calendar events: the flags\<close>

lemma set_insert_by: "set (insert_by ks r xs) = insert r (set xs)"
  by (induction xs) auto

lemma set_foldl_insert_by: "set (foldl (\<lambda>acc r. insert_by ks r acc) acc rs) = set acc \<union> set rs"
  by (induction rs arbitrary: acc) (auto simp: set_insert_by)

lemma set_order_by: "set (order_by ks rs) = set rs"
  by (simp add: order_by_def set_foldl_insert_by)

lemma fold_max_ge: "a \<le> fold max xs (a::int)"
  by (induction xs arbitrary: a) (auto intro: order_trans [OF max.cobounded2])

lemma fold_max_mem: "x \<in> set xs \<Longrightarrow> x \<le> fold max xs (a::int)"
proof (induction xs arbitrary: a)
  case Nil
  then show ?case by simp
next
  case (Cons y ys)
  show ?case
  proof (cases "x = y")
    case True
    have "y \<le> max y a" by simp
    also have "\<dots> \<le> fold max ys (max y a)" by (rule fold_max_ge)
    finally show ?thesis using True by simp
  next
    case False
    with Cons.prems have "x \<in> set ys" by simp
    then show ?thesis using Cons.IH by simp
  qed
qed

lemma next_id_fresh: "r \<in> set (rows t) \<Longrightarrow> col r ''id'' \<noteq> SInt (next_id t)"
proof
  assume r: "r \<in> set (rows t)" and c: "col r ''id'' = SInt (next_id t)"
  from c have "row_id r = next_id t" by (simp add: row_id_def)
  moreover from r have "row_id r \<le> fold max (map row_id (rows t)) (seq t)"
    by (intro fold_max_mem) simp
  ultimately show False by (simp add: next_id_def)
qed

lemma event_json_id:
  "js_prop (event_json (select_as events_columns x)) ''id'' = unbind (col x ''id'')"
  by (simp add: event_json_def select_as_def events_columns_def with_key_def fld_def)

lemma event_json_isAllDay:
  "js_prop (event_json (select_as events_columns x)) ''isAllDay'' =
     JBool (truthy (unbind (col x ''is_all_day'')))"
  by (simp add: event_json_def select_as_def events_columns_def with_key_def fld_def
      js_Boolean_def)

lemma event_json_isOnline:
  "js_prop (event_json (select_as events_columns x)) ''isOnline'' =
     JBool (truthy (unbind (col x ''is_online'')))"
  by (simp add: event_json_def select_as_def events_columns_def with_key_def fld_def
      js_Boolean_def)

lemma event_json_repeatWeekly:
  "js_prop (event_json (select_as events_columns x)) ''repeatWeekly'' =
     JBool (truthy (unbind (col x ''repeat_weekly'')))"
  by (simp add: event_json_def select_as_def events_columns_def with_key_def fld_def
      js_Boolean_def)

lemma unbind_is_int: "is_int v \<Longrightarrow> unbind v = JNum n \<Longrightarrow> v = SInt n"
  by (cases v) auto

lemma post_events_result:
  assumes "\<not> run_err e"
  shows "\<exists>r. calendar_events (snd (post_events e st b)) =
           \<lparr>rows = rows (calendar_events st) @ [r], seq = next_id (calendar_events st)\<rparr> \<and>
         col r ''id'' = SInt (next_id (calendar_events st)) \<and>
         col r ''user_email'' = bind (fld b ''userEmail'') \<and>
         col r ''is_all_day'' = bind (flag (fld b ''isAllDay'')) \<and>
         col r ''is_online'' = bind (flag (fld b ''isOnline'')) \<and>
         col r ''repeat_weekly'' = bind (flag (fld b ''repeatWeekly''))"
  using assms
  by (simp add: post_events_def db_run_insert_def sql_insert_def violates_def Let_def
      new_row_def col_def calendar_events_schema_def)

lemma post_events_id:
  "\<not> run_err e \<Longrightarrow>
     js_prop (body_of (fst (post_events e st b))) ''id'' = JNum (next_id (calendar_events st))"
  by (simp add: post_events_def db_run_insert_def sql_insert_def violates_def Let_def fld_def)

text \<open>
  C4: an event created through \<^verbatim>\<open>POST /events\<close> is listed by
  \<^verbatim>\<open>GET /events/:email\<close> under the identifier that the create returned, and the event
  listed under that identifier has \<^verbatim>\<open>isAllDay\<close>, \<^verbatim>\<open>isOnline\<close> and
  \<^verbatim>\<open>repeatWeekly\<close> equal to the booleans \<^verbatim>\<open>true\<close> or \<^verbatim>\<open>false\<close>: a flag
  supplied as \<^verbatim>\<open>true\<close> reads back \<open>JBool True\<close>, one supplied as \<^verbatim>\<open>false\<close>
  reads back \<open>JBool False\<close> (in general the truthiness of what was supplied).
\<close>

theorem event_flags_round_trip:
  assumes "\<not> run_err e" and "\<not> get_err e'" and "fld b ''userEmail'' = JStr m"
    and "conforms calendar_events_schema (calendar_events st)"
  shows "js_prop (body_of (fst (post_events e st b))) ''id'' = JNum (next_id (calendar_events st)) \<and>
    (\<exists>evs. get_events e' (snd (post_events e st b)) m = Respond 200 (JArr evs) \<and>
      (\<exists>ev \<in> set evs. js_prop ev ''id'' = JNum (next_id (calendar_events st))) \<and>
      (\<forall>ev \<in> set evs. js_prop ev ''id'' = JNum (next_id (calendar_events st)) \<longrightarrow>
         js_prop ev ''isAllDay'' = JBool (truthy (fld b ''isAllDay'')) \<and>
         js_prop ev ''isOnline'' = JBool (truthy (fld b ''isOnline'')) \<and>
         js_prop ev ''repeatWeekly'' = JBool (truthy (fld b ''repeatWeekly''))))"
proof -
  let ?t = "calendar_events st"
  let ?i = "next_id ?t"
  let ?p = "where_col ''user_email'' (SText m)"
  let ?ks = "[(''event_date'', True), (''start_time'', True)]"
  from post_events_result [OF assms(1), of st b] obtain r where
    t': "calendar_events (snd (post_events e st b)) = \<lparr>rows = rows ?t @ [r], seq = ?i\<rparr>"
    and rid: "col r ''id'' = SInt ?i"
    and rem: "col r ''user_email'' = bind (fld b ''userEmail'')"
    and r1: "col r ''is_all_day'' = bind (flag (fld b ''isAllDay''))"
    and r2: "col r ''is_online'' = bind (flag (fld b ''isOnline''))"
    and r3: "col r ''repeat_weekly'' = bind (flag (fld b ''repeatWeekly''))"
    by blast
  let ?rs = "order_by ?ks (sql_select ?p \<lparr>rows = rows ?t @ [r], seq = ?i\<rparr>)"
  let ?evs = "map (\<lambda>x. event_json (select_as events_columns x)) ?rs"
  have g: "get_events e' (snd (post_events e st b)) m = Respond 200 (JArr ?evs)"
    using assms(2) by (simp add: get_events_def db_all_def t')
  have pr: "?p r"
    using rem assms(3) by (simp add: where_col_def sql_eq_def)
  have mem: "set ?rs = {x \<in> set (rows ?t). ?p x} \<union> {r}"
    using pr by (auto simp: set_order_by sql_select_def)
  have flags: "js_prop (event_json (select_as events_columns r)) ''isAllDay'' =
        JBool (truthy (fld b ''isAllDay'')) \<and>
      js_prop (event_json (select_as events_columns r)) ''isOnline'' =
        JBool (truthy (fld b ''isOnline'')) \<and>
      js_prop (event_json (select_as events_columns r)) ''repeatWeekly'' =
        JBool (truthy (fld b ''repeatWeekly''))"
    by (simp add: event_json_isAllDay event_json_isOnline event_json_repeatWeekly r1 r2 r3
        flag_def)
  have ex: "\<exists>ev \<in> set ?evs. js_prop ev ''id'' = JNum ?i"
  proof
    show "event_json (select_as events_columns r) \<in> set ?evs"
      using mem by auto
    show "js_prop (event_json (select_as events_columns r)) ''id'' = JNum ?i"
      by (simp add: event_json_id rid)
  qed
  have all: "\<forall>ev \<in> set ?evs. js_prop ev ''id'' = JNum ?i \<longrightarrow>
         js_prop ev ''isAllDay'' = JBool (truthy (fld b ''isAllDay'')) \<and>
         js_prop ev ''isOnline'' = JBool (truthy (fld b ''isOnline'')) \<and>
         js_prop ev ''repeatWeekly'' = JBool (truthy (fld b ''repeatWeekly''))"
  proof (intro ballI impI)
    fix ev
    assume ev: "ev \<in> set ?evs" and evid: "js_prop ev ''id'' = JNum ?i"
    from ev obtain x where x: "x \<in> set ?rs" and evx: "ev = event_json (select_as events_columns x)"
      by auto
    from evid evx have ux: "unbind (col x ''id'') = JNum ?i"
      by (simp add: event_json_id)
    have "x = r"
    proof (rule ccontr)
      assume "x \<noteq> r"
      with x mem have xt: "x \<in> set (rows ?t)" by auto
      with assms(4) have ii: "is_int (col x ''id'')" by (simp add: conforms_def)
      have "col x ''id'' = SInt ?i" by (rule unbind_is_int [OF ii ux])
      with next_id_fresh [OF xt] show False by simp
    qed
    with evx flags show "js_prop ev ''isAllDay'' = JBool (truthy (fld b ''isAllDay'')) \<and>
         js_prop ev ''isOnline'' = JBool (truthy (fld b ''isOnline'')) \<and>
         js_prop ev ''repeatWeekly'' = JBool (truthy (fld b ''repeatWeekly''))"
      by simp
  qed
  from post_events_id [OF assms(1)] g ex all show ?thesis by blast
qed


lemma next_id_empty: "next_id (calendar_events empty_store) = 1"
  by (simp add: next_id_def empty_store_def empty_table_def)

theorem event_flags_round_trip_witness:
  "\<not> run_err (quiet_env ''2025-01-01'') \<and> \<not> get_err (quiet_env ''2025-01-02'') \<and>
   fld event_body ''userEmail'' = JStr ''a@x.com'' \<and>
   conforms calendar_events_schema (calendar_events empty_store) \<and>
   (case get_events (quiet_env ''2025-01-02'')
           (snd (post_events (quiet_env ''2025-01-01'') empty_store event_body)) ''a@x.com'' of
      Respond n (JArr [ev]) \<Rightarrow>
        n = 200 \<and> js_prop ev ''id'' = JNum 1 \<and> js_prop ev ''isAllDay'' = JBool True \<and>
        js_prop ev ''isOnline'' = JBool False \<and> js_prop ev ''repeatWeekly'' = JBool True
    | _ \<Rightarrow> False)"
proof -
  let ?e = "quiet_env ''2025-01-01''" and ?e' = "quiet_env ''2025-01-02''"
  let ?st' = "snd (post_events ?e empty_store event_body)"
  have h1: "\<not> run_err ?e" and h2: "\<not> get_err ?e'"
    by (simp_all add: quiet_env_def)
  have h3: "fld event_body ''userEmail'' = JStr ''a@x.com''"
    by (simp add: event_body_def fld_def)
  have h4: "conforms calendar_events_schema (calendar_events empty_store)"
    by (simp add: conforms_def empty_store_def empty_table_def)
  have tr: "truthy (fld event_body ''isAllDay'')" "\<not> truthy (fld event_body ''isOnline'')"
    "truthy (fld event_body ''repeatWeekly'')"
    by (simp_all add: event_body_def fld_def)
  from post_events_result [OF h1, of empty_store event_body] obtain r where
    t': "calendar_events ?st' =
           \<lparr>rows = rows (calendar_events empty_store) @ [r],
            seq = next_id (calendar_events empty_store)\<rparr>"
    and rem: "col r ''user_email'' = bind (fld event_body ''userEmail'')"
    by blast
  have rw: "rows (calendar_events ?st') = [r]"
    by (simp add: t') (simp add: empty_store_def empty_table_def)
  have one: "\<exists>ev. get_events ?e' ?st' ''a@x.com'' = Respond 200 (JArr [ev])"
    using h2 rem h3
    by (simp add: get_events_def db_all_def rw sql_select_def order_by_def where_col_def
        sql_eq_def)
  then obtain ev where ev: "get_events ?e' ?st' ''a@x.com'' = Respond 200 (JArr [ev])" ..
  from event_flags_round_trip [OF h1 h2 h3 h4] ev
  have "js_prop ev ''id'' = JNum 1 \<and> js_prop ev ''isAllDay'' = JBool True \<and>
        js_prop ev ''isOnline'' = JBool False \<and> js_prop ev ''repeatWeekly'' = JBool True"
    by (simp add: next_id_empty tr)
  with h1 h2 h3 h4 ev show ?thesis by simp
qed

subsection \<open>Calendar events: canonical and legacy endpoints\<close>



















subsection \<open>Saving a profile twice\<close>

lemma truthy_bind: "truthy v \<Longrightarrow> bind v \<noteq> SNull"
  by (cases v) auto

lemma map_fst_set_cols: "map fst (set_cols asg r) = map fst r"
  by (induction r) (auto simp: set_cols_def)

lemma where_col_set_cols:
  "map_of asg c = None \<Longrightarrow> where_col c u (set_cols asg r) = where_col c u r"
  by (simp add: where_col_def col_set_cols_other)

lemma filter_update_where_col:
  assumes "map_of asg c = None"
  shows "filter (where_col c u) (map (\<lambda>r. if where_col c u r then set_cols asg r else r) rs) =
         map (set_cols asg) (filter (where_col c u) rs)"
  using assms by (induction rs) (auto simp: where_col_set_cols)

lemma sql_update_selected:
  assumes "map_of asg c = None" and "sql_select (where_col c u) t = [r]"
  shows "fst (sql_update asg (where_col c u) t) = 1 \<and>
         sql_select (where_col c u) (snd (sql_update asg (where_col c u) t)) = [set_cols asg r]"
  using assms by (simp add: sql_update_def sql_select_def filter_update_where_col)

lemma sql_insert_selected:
  assumes "sql_select (where_col c u) t = []" and "u \<noteq> SNull"
    and "col (new_row sch asg (next_id t)) c = u"
  shows "sql_insert sch [c] asg t =
           Inr (next_id t, \<lparr>rows = rows t @ [new_row sch asg (next_id t)], seq = next_id t\<rparr>) \<and>
         sql_select (where_col c u)
           \<lparr>rows = rows t @ [new_row sch asg (next_id t)], seq = next_id t\<rparr> =
           [new_row sch asg (next_id t)]"
proof -
  from assms(1) have no: "\<forall>r \<in> set (rows t). \<not> where_col c u r"
    by (simp add: sql_select_def filter_empty_conv)
  then have "\<not> violates [c] (new_row sch asg (next_id t)) t"
    using assms(3) by (auto simp: violates_def where_col_def)
  moreover have "where_col c u (new_row sch asg (next_id t))"
    using assms(2,3) by (simp add: where_col_def sql_eq_def)
  ultimately show ?thesis
    using assms(1) by (simp add: sql_insert_def Let_def sql_select_def)
qed

lemma post_profile_update_branch:
  assumes "truthy (fld b ''userEmail'')" and "\<not> get_err e" and "\<not> run_err e"
    and "profile_rows b st = [r]"
  shows "fst (post_profile e st b) =
           Respond 200 (JObj [(''message'', JStr ''Profile updated successfully''),
             (''updated'', JNum 1)]) \<and>
         (\<exists>r'. profile_rows b (snd (post_profile e st b)) = [r'] \<and>
            map fst r' = map fst r \<and> col r' ''id'' = col r ''id'' \<and>
            col r' ''created_date'' = col r ''created_date'' \<and>
            (map_of r ''modified_date'' \<noteq> None \<longrightarrow> col r' ''modified_date'' = SText (now e)))"
proof -
  let ?p = "where_col ''user_email'' (bind (fld b ''userEmail''))"
  from assms(4) have s: "sql_select ?p (profiles st) = [r]"
    by (simp add: profile_rows_def)
  show ?thesis
    using assms(1-3) s
    by (simp add: post_profile_def db_get_def db_run_update_def Let_def case_prod_beta
        profile_rows_def sql_update_selected map_fst_set_cols col_set_cols_other
        col_set_cols_hit)
qed

lemma post_profile_insert_branch:
  assumes "truthy (fld b ''userEmail'')" and "\<not> get_err e" and "\<not> run_err e"
    and "profile_rows b st = []"
  shows "\<exists>r'. profile_rows b (snd (post_profile e st b)) = [r'] \<and>
            map fst r' = ''id'' # map fst profiles_schema"
proof -
  let ?u = "bind (fld b ''userEmail'')"
  from assms(4) have s: "sql_select (where_col ''user_email'' ?u) (profiles st) = []"
    by (simp add: profile_rows_def)
  have u: "?u \<noteq> SNull" by (rule truthy_bind [OF assms(1)])
  have k: "map fst (new_row profiles_schema asg i) = ''id'' # map fst profiles_schema" for asg i
    by (simp add: new_row_def profiles_schema_def)
  have c: "map_of asg ''user_email'' = Some ?u \<Longrightarrow>
      col (new_row profiles_schema asg i) ''user_email'' = ?u" for asg i
    by (simp add: new_row_def profiles_schema_def col_def)
  show ?thesis
    using assms(1-3) s
    by (simp add: post_profile_def db_get_def db_run_insert_def Let_def
        sql_insert_selected [OF s u] c k profile_rows_def)
qed


lemma has_modified_date:
  assumes "map fst r = ''id'' # map fst profiles_schema"
  shows "map_of r ''modified_date'' \<noteq> None"
proof -
  have "''modified_date'' \<in> set (map fst r)"
    by (simp add: assms profiles_schema_def)
  then show ?thesis
    by (simp add: map_of_eq_None_iff)
qed

text \<open>
  C3: saving the same profile twice for the same owner leaves exactly one row for that
  \<^verbatim>\<open>user_email\<close>; the second save takes the update branch (it answers
  \<^verbatim>\<open>Profile updated successfully\<close> with one row changed); the row's
  \<^verbatim>\<open>created_date\<close> is the one it had after the first save, and its
  \<^verbatim>\<open>modified_date\<close> is the clock reading of the second save. The store starts with at
  most one row for the owner, as the \<^verbatim>\<open>UNIQUE\<close> column guarantees.
\<close>

theorem profile_save_twice:
  assumes "truthy (fld b ''userEmail'')"
    and "\<not> get_err e1" and "\<not> run_err e1" and "\<not> get_err e2" and "\<not> run_err e2"
    and "length (profile_rows b st) \<le> 1"
    and "conforms profiles_schema (profiles st)"
  shows "length (profile_rows b (snd (post_profile e2 (snd (post_profile e1 st b)) b))) = 1 \<and>
    fst (post_profile e2 (snd (post_profile e1 st b)) b) =
      Respond 200 (JObj [(''message'', JStr ''Profile updated successfully''),
        (''updated'', JNum 1)]) \<and>
    map (\<lambda>r. col r ''created_date'')
        (profile_rows b (snd (post_profile e2 (snd (post_profile e1 st b)) b))) =
      map (\<lambda>r. col r ''created_date'') (profile_rows b (snd (post_profile e1 st b))) \<and>
    map (\<lambda>r. col r ''modified_date'')
        (profile_rows b (snd (post_profile e2 (snd (post_profile e1 st b)) b))) =
      [SText (now e2)]"
proof -
  let ?st1 = "snd (post_profile e1 st b)"
  have first: "\<exists>r1. profile_rows b ?st1 = [r1] \<and> map_of r1 ''modified_date'' \<noteq> None"
  proof (cases "profile_rows b st")
    case Nil
    from post_profile_insert_branch [OF assms(1-3) Nil] obtain r1 where
      a: "profile_rows b ?st1 = [r1]" and k: "map fst r1 = ''id'' # map fst profiles_schema"
      by auto
    from a has_modified_date [OF k] show ?thesis by simp
  next
    case (Cons r0 rs)
    with assms(6) have one: "profile_rows b st = [r0]" by simp
    then have "r0 \<in> set (profile_rows b st)" by simp
    then have "r0 \<in> set (rows (profiles st))"
      by (simp add: profile_rows_def sql_select_def)
    with assms(7) have k0: "map fst r0 = ''id'' # map fst profiles_schema"
      by (simp add: conforms_def)
    from post_profile_update_branch [OF assms(1-3) one] obtain r1 where
      a: "profile_rows b ?st1 = [r1]" and k: "map fst r1 = map fst r0"
      by auto
    from k k0 have "map fst r1 = ''id'' # map fst profiles_schema" by simp
    from a has_modified_date [OF this] show ?thesis by simp
  qed
  then obtain r1 where r1: "profile_rows b ?st1 = [r1]"
    and m1: "map_of r1 ''modified_date'' \<noteq> None"
    by auto
  from post_profile_update_branch [OF assms(1) assms(4,5) r1] m1 r1
  show ?thesis by auto
qed

lemma saved_once:
  "profile_rows profile_body (snd (post_profile (quiet_env ''2025-01-01'') empty_store profile_body)) =
     [new_row profiles_schema
        [(''user_email'', SText ''a@x.com''), (''full_name'', SText ''Ann''),
         (''degrees'', SText ''[]''), (''employment'', SText ''[]''), (''courses'', SText ''[]''),
         (''grants'', SText ''[]''), (''awards'', SText ''[]''),
         (''created_date'', SText ''2025-01-01''), (''modified_date'', SText ''2025-01-01'')] 1]"
  by (simp add: profile_rows_def post_profile_def db_get_def db_run_insert_def sql_insert_def
      violates_def Let_def next_id_def quiet_env_def empty_store_def empty_table_def
      sql_select_def where_col_def sql_eq_def col_def new_row_def profiles_schema_def
      profile_body_def fld_def js_or_def)

theorem profile_save_twice_witness:
  "truthy (fld profile_body ''userEmail'') \<and>
   \<not> get_err (quiet_env ''2025-01-01'') \<and> \<not> run_err (quiet_env ''2025-01-01'') \<and>
   \<not> get_err (quiet_env ''2025-01-02'') \<and> \<not> run_err (quiet_env ''2025-01-02'') \<and>
   length (profile_rows profile_body empty_store) \<le> 1 \<and>
   conforms profiles_schema (profiles empty_store) \<and>
   length (profile_rows profile_body
     (snd (post_profile (quiet_env ''2025-01-02'')
       (snd (post_profile (quiet_env ''2025-01-01'') empty_store profile_body)) profile_body))) = 1 \<and>
   map (\<lambda>r. col r ''created_date'') (profile_rows profile_body
     (snd (post_profile (quiet_env ''2025-01-02'')
       (snd (post_profile (quiet_env ''2025-01-01'') empty_store profile_body)) profile_body))) =
     [SText ''2025-01-01''] \<and>
   map (\<lambda>r. col r ''modified_date'') (profile_rows profile_body
     (snd (post_profile (quiet_env ''2025-01-02'')
       (snd (post_profile (quiet_env ''2025-01-01'') empty_store profile_body)) profile_body))) =
     [SText ''2025-01-02'']"
proof -
  let ?e1 = "quiet_env ''2025-01-01''" and ?e2 = "quiet_env ''2025-01-02''"
  have h1: "truthy (fld profile_body ''userEmail'')"
    by (simp add: profile_body_def fld_def)
  have h2: "\<not> get_err ?e1" and h3: "\<not> run_err ?e1"
    and h4: "\<not> get_err ?e2" and h5: "\<not> run_err ?e2"
    by (simp_all add: quiet_env_def)
  have h6: "length (profile_rows profile_body empty_store) \<le> 1"
    by (simp add: profile_rows_def sql_select_def empty_store_def empty_table_def)
  have h7: "conforms profiles_schema (profiles empty_store)"
    by (simp add: conforms_def empty_store_def empty_table_def)
  have c1: "map (\<lambda>r. col r ''created_date'')
      (profile_rows profile_body (snd (post_profile ?e1 empty_store profile_body))) =
      [SText ''2025-01-01'']"
    by (simp add: saved_once new_row_def profiles_schema_def col_def)
  have n2: "now ?e2 = ''2025-01-02''"
    by (simp add: quiet_env_def)
  from profile_save_twice [OF h1 h2 h3 h4 h5 h6 h7] c1 n2 h1 h2 h3 h4 h5 h6 h7
  show ?thesis by simp
qed

end
